theory Spec2Isabelle
  imports
    Complex_Main
    "HOL-Library.Multiset"
    "HOL-Library.Char_ord"
    "HOL-Library.List_Lexorder"
    "HOL-Library.Product_Lexorder"
begin

section \<open>Python values shared by the units and the command line\<close>

text \<open>
  An exception object, as far as the code looks at it: the name of its class
  (\<^verbatim>\<open>type(exc).__name__\<close>), the names of the classes it inherits from, and its text
  (\<^verbatim>\<open>str(exc)\<close>). \<^verbatim>\<open>isinstance(exc, C)\<close> holds for the class itself and for every base.
\<close>

record exception =
  exc_type :: string
  exc_bases :: "string list"
  exc_str :: string

definition isinstance :: "exception \<Rightarrow> string \<Rightarrow> bool" where
  "isinstance exc cls = (cls = exc_type exc \<or> cls \<in> set (exc_bases exc))"

definition KeyError :: "string \<Rightarrow> exception" where
  "KeyError k =
     \<lparr>exc_type = ''KeyError'',
      exc_bases = [''LookupError'', ''Exception'', ''BaseException''],
      exc_str = [CHR 0x27] @ k @ [CHR 0x27]\<rparr>"

definition NotAcceptable :: "string \<Rightarrow> exception" where
  "NotAcceptable msg =
     \<lparr>exc_type = ''NotAcceptable'',
      exc_bases = [''PipelineUnitError'', ''ThothAdviserException'', ''Exception'', ''BaseException''],
      exc_str = msg\<rparr>"

text \<open>A justification or report entry is a dictionary from strings to strings.\<close>

type_synonym entry = "string \<rightharpoonup> string"

section \<open>Resolution state\<close>

text \<open>
  Modelled from the spec: the class \<^verbatim>\<open>State\<close> is not among the sources. Section 3
  gives it the mapping \<open>resolved\<close> from package names to versions, the queue
  \<open>unresolved\<close> of package names, the \<open>score\<close> and the \<open>justification\<close>
  list. The wrap reads and writes \<open>justification\<close> only.
\<close>

record state =
  resolved :: "string \<rightharpoonup> string"
  unresolved :: "string list"
  score :: real
  justification :: "entry list"

section \<open>Pipeline builder context\<close>

text \<open>
  Modelled from the spec: the class \<^verbatim>\<open>PipelineBuilderContext\<close> is not among the sources.
  Section 4.2 gives it a run kind (advise, provenance-check, dependency-monkey), a
  mode predicate \<^verbatim>\<open>is_adviser_pipeline()\<close> and the insertion-ordered set of unit classes
  already included, read through \<^verbatim>\<open>is_included(unit_class)\<close>.
\<close>

datatype run_kind = Advise | ProvenanceCheck | DependencyMonkey

record builder_context =
  kind :: run_kind
  included :: "string list"

definition is_adviser_pipeline :: "builder_context \<Rightarrow> bool" where
  "is_adviser_pipeline bc = (kind bc = Advise)"

definition is_included :: "builder_context \<Rightarrow> string \<Rightarrow> bool" where
  "is_included bc cls = (cls \<in> set (included bc))"

section \<open>wraps/sort\_justifications.py\<close>

text \<open>
  \<^verbatim>\<open>should_include\<close> is a generator; the model returns the list of the parameter-sets
  it yields. The empty dictionary \<^verbatim>\<open>{}\<close> is the empty map.
\<close>

definition SortJustificationsWrap_should_include :: "builder_context \<Rightarrow> entry list" where
  "SortJustificationsWrap_should_include bc =
     (if \<not> is_included bc ''SortJustificationsWrap'' then [Map.empty] else [])"

text \<open>
  The key function
  \<^verbatim>\<open>lambda i: (i.get("package_name", ""), i["type"], i["message"])\<close>:
  the tuple is built left to right, \<^verbatim>\<open>get\<close> never raises, each subscript raises
  \<^verbatim>\<open>KeyError\<close> when the key is missing.
\<close>

type_synonym sort_key = "string \<times> string \<times> string"

definition entry_key :: "entry \<Rightarrow> exception + sort_key" where
  "entry_key i =
     (let package_name = (case i ''package_name'' of None \<Rightarrow> '''' | Some p \<Rightarrow> p) in
      case i ''type'' of
        None \<Rightarrow> Inl (KeyError ''type'')
      | Some t \<Rightarrow>
          (case i ''message'' of
             None \<Rightarrow> Inl (KeyError ''message'')
           | Some m \<Rightarrow> Inr (package_name, t, m)))"

text \<open>
  \<^verbatim>\<open>list.sort(key=...)\<close> first computes the key of every element, in order; the first
  exception of the key function ends the call and leaves the list as it was.
\<close>

fun compute_keys :: "entry list \<Rightarrow> exception + sort_key list" where
  "compute_keys [] = Inr []"
| "compute_keys (i # rest) =
     (case entry_key i of
        Inl e \<Rightarrow> Inl e
      | Inr k \<Rightarrow>
          (case compute_keys rest of
             Inl e \<Rightarrow> Inl e
           | Inr ks \<Rightarrow> Inr (k # ks)))"

text \<open>
  Then the (key, element) pairs are sorted by key with a stable sort, and the elements
  are written back. Strings compare lexicographically by character code, tuples
  lexicographically by component.
\<close>

definition list_sort :: "entry list \<Rightarrow> exception + entry list" where
  "list_sort js =
     (case compute_keys js of
        Inl e \<Rightarrow> Inl e
      | Inr ks \<Rightarrow> Inr (map snd (sort_key fst (zip ks js))))"

text \<open>
  \<^verbatim>\<open>run\<close> sorts \<^verbatim>\<open>state.justification\<close> in place. The model returns the exception that
  leaves \<^verbatim>\<open>run\<close>, if any, together with the state as it is afterwards.
\<close>

definition SortJustificationsWrap_run :: "state \<Rightarrow> exception option \<times> state" where
  "SortJustificationsWrap_run s =
     (case list_sort (justification s) of
        Inl e \<Rightarrow> (Some e, s)
      | Inr js \<Rightarrow> (None, s\<lparr>justification := js\<rparr>))"


section \<open>boots/fully\_specified\_environment.py\<close>

definition FullySpecifiedEnvironment_should_include :: "builder_context \<Rightarrow> entry list" where
  "FullySpecifiedEnvironment_should_include bc =
     (if is_adviser_pipeline bc \<and> \<not> is_included bc ''FullySpecifiedEnvironment''
      then [Map.empty] else [])"

text \<open>
  The part of the resolver context the boot touches: the runtime environment of the
  project, with its three optional strings, and the \<^verbatim>\<open>stack_info\<close> list.
\<close>

record operating_system =
  os_name :: "string option"
  os_version :: "string option"

record runtime_environment =
  operating_system :: operating_system
  python_version :: "string option"

record project =
  runtime_environment :: runtime_environment

record boot_context =
  context_project :: project
  stack_info :: "entry list"

text \<open>
  \<^verbatim>\<open>repr\<close> formats the \<^verbatim>\<open>!r\<close> fields of the message; it is Python's own and is a
  parameter of the model, like \<^verbatim>\<open>is_fully_specified\<close> and \<^verbatim>\<open>get_justification_link\<close>
  of the library \<^verbatim>\<open>thoth.common\<close>.
\<close>

definition not_fully_specified_msg :: "(string option \<Rightarrow> string) \<Rightarrow> runtime_environment \<Rightarrow> string" where
  "not_fully_specified_msg repr env =
     ''Software environment supplied is not fully specified, OS name is ''
       @ repr (os_name (operating_system env))
       @ '' in version '' @ repr (os_version (operating_system env))
       @ '' using Python '' @ repr (python_version env)"

definition FullySpecifiedEnvironment_run ::
  "(runtime_environment \<Rightarrow> bool) \<Rightarrow> (string option \<Rightarrow> string) \<Rightarrow> (string \<Rightarrow> string)
     \<Rightarrow> boot_context \<Rightarrow> exception option \<times> boot_context" where
  "FullySpecifiedEnvironment_run is_fully_specified repr jl ctx =
     (if \<not> is_fully_specified (runtime_environment (context_project ctx)) then
        (let msg = not_fully_specified_msg repr (runtime_environment (context_project ctx));
             ctx = ctx\<lparr>stack_info := stack_info ctx
                     @ [[''message'' \<mapsto> msg, ''type'' \<mapsto> ''ERROR'',
                         ''link'' \<mapsto> jl ''fully_specified_env'']]\<rparr>
         in (Some (NotAcceptable msg), ctx))
      else (None, ctx))"

section \<open>cli.py: helpers\<close>

text \<open>Truth value of an optional string: \<^verbatim>\<open>None\<close> and the empty string are false.\<close>

definition truthy :: "string option \<Rightarrow> bool" where
  "truthy v = (case v of None \<Rightarrow> False | Some s \<Rightarrow> s \<noteq> [])"

text \<open>The string of an optional string that is true, for \<^verbatim>\<open>f(v) if v else ...\<close>.\<close>

definition nonempty :: "string option \<Rightarrow> string option" where
  "nonempty v = (if truthy v then v else None)"

definition startswith :: "string \<Rightarrow> string \<Rightarrow> bool" where
  "startswith s pre = (take (length pre) s = pre)"

text \<open>\<^verbatim>\<open>s.split(',')\<close>: every separator cuts, empty pieces are kept.\<close>

fun split :: "char \<Rightarrow> string \<Rightarrow> string list" where
  "split sep [] = [[]]"
| "split sep (c # cs) =
     (if c = sep then [] # split sep cs
      else (case split sep cs of [] \<Rightarrow> [[c]] | w # ws \<Rightarrow> (c # w) # ws))"

text \<open>The report entry both handlers build from a caught exception.\<close>

definition error_entry :: "exception \<Rightarrow> entry" where
  "error_entry exc =
     [''type'' \<mapsto> ''ERROR'', ''justification'' \<mapsto> exc_str exc @ '' ('' @ exc_type exc @ '')'']"

text \<open>\<^verbatim>\<open>int(result['error'] is True)\<close>\<close>

definition exit_status :: "bool option \<Rightarrow> int" where
  "exit_status err = (if err = Some True then 1 else 0)"

section \<open>cli.py: provenance and advise\<close>

text \<open>
  The collaborators of the two commands: reading and parsing the manifests
  (\<^verbatim>\<open>_instantiate_project\<close>), the project's \<^verbatim>\<open>to_dict\<close>, \<^verbatim>\<open>check_provenance\<close> and
  \<^verbatim>\<open>advise\<close>, and the four serialisers of the result. Each either raises or returns.
\<close>

datatype recommendation_type = STABLE | TESTING | LATEST

datatype python_recommendation_output = PIPENV | REQUIREMENTS

record ('p, 'd) project_env =
  instantiate_project :: "string \<Rightarrow> string option \<Rightarrow> bool \<Rightarrow> exception + 'p"
  to_dict :: "'p \<Rightarrow> exception + 'd"
  check_provenance :: "'p \<Rightarrow> string list \<Rightarrow> exception + entry list"
  project_advise :: "'p \<Rightarrow> string option \<Rightarrow> recommendation_type \<Rightarrow> exception + entry list \<times> 'p"
  pipfile_to_dict :: "'p \<Rightarrow> exception + 'd"
  pipfile_lock_to_dict :: "'p \<Rightarrow> exception + 'd"
  pipfile_to_requirements_file :: "'p \<Rightarrow> exception + 'd"
  pipfile_lock_to_requirements_file :: "'p \<Rightarrow> exception + 'd"

text \<open>\<^verbatim>\<open>whitelisted_sources.split(',') if whitelisted_sources else []\<close>\<close>

definition split_sources :: "string option \<Rightarrow> string list" where
  "split_sources whitelisted_sources =
     (case nonempty whitelisted_sources of
        None \<Rightarrow> []
      | Some s \<Rightarrow> split (CHR '','') s)"

record 'd provenance_result =
  pr_error :: "bool option"
  pr_report :: "entry list"
  pr_whitelisted_indexes :: "string list"
  pr_input :: "'d option"

text \<open>
  The body of the \<^verbatim>\<open>try\<close> of \<^verbatim>\<open>provenance\<close>: what it raises or the report it returns,
  and the value of \<^verbatim>\<open>result['input']\<close> when it is left.
\<close>

definition provenance_workflow ::
  "('p, 'd) project_env \<Rightarrow> string \<Rightarrow> string \<Rightarrow> string list \<Rightarrow> bool
     \<Rightarrow> (exception + entry list) \<times> 'd option" where
  "provenance_workflow env requirements requirements_locked whitelisted_sources files =
     (case instantiate_project env requirements (Some requirements_locked) files of
        Inl exc \<Rightarrow> (Inl exc, None)
      | Inr project \<Rightarrow>
          (case to_dict env project of
             Inl exc \<Rightarrow> (Inl exc, None)
           | Inr d \<Rightarrow>
               (case check_provenance env project whitelisted_sources of
                  Inl exc \<Rightarrow> (Inl exc, Some d)
                | Inr report \<Rightarrow> (Inr report, Some d))))"

text \<open>
  A command either lets an exception through (\<open>Inl\<close>) or prints its result and returns
  an exit code (\<open>Inr\<close>, the result printed and the code).
\<close>

definition provenance ::
  "('p, 'd) project_env \<Rightarrow> string \<Rightarrow> string \<Rightarrow> string option \<Rightarrow> bool
     \<Rightarrow> exception + 'd provenance_result \<times> int" where
  "provenance env requirements requirements_locked whitelisted_sources files =
     (let whitelisted_sources = split_sources whitelisted_sources;
          result = \<lparr>pr_error = None, pr_report = [],
                    pr_whitelisted_indexes = whitelisted_sources, pr_input = None\<rparr>;
          (outcome, inp) =
            provenance_workflow env requirements requirements_locked whitelisted_sources files;
          result = result\<lparr>pr_input := inp\<rparr>
      in case outcome of
           Inl exc \<Rightarrow>
             if isinstance exc ''ThothAdviserException'' then
               if isinstance exc ''InternalError'' then Inl exc
               else
                 (let result = result\<lparr>pr_error := Some True, pr_report := [error_entry exc]\<rparr>
                  in Inr (result, exit_status (pr_error result)))
             else Inl exc
         | Inr report \<Rightarrow>
             (let result = result\<lparr>pr_error := Some False, pr_report := report\<rparr>
              in Inr (result, exit_status (pr_error result))))"

record 'd advise_result =
  ar_error :: "bool option"
  ar_report :: "entry list"
  ar_runtime_environment :: "string option"
  ar_recommendation_type :: string
  ar_requirements_format :: string
  ar_input :: "'d option"
  ar_output_requirements :: "'d option"
  ar_output_requirements_locked :: "'d option"

fun recommendation_type_name_lower :: "recommendation_type \<Rightarrow> string" where
  "recommendation_type_name_lower STABLE = ''stable''"
| "recommendation_type_name_lower TESTING = ''testing''"
| "recommendation_type_name_lower LATEST = ''latest''"

fun requirements_format_name_lower :: "python_recommendation_output \<Rightarrow> string" where
  "requirements_format_name_lower PIPENV = ''pipenv''"
| "requirements_format_name_lower REQUIREMENTS = ''requirements''"

text \<open>
  The body of the \<^verbatim>\<open>try\<close> of \<^verbatim>\<open>advise\<close>: what it raises, or the report with the project
  as \<^verbatim>\<open>advise\<close> left it, and the value of \<^verbatim>\<open>result['input']\<close> when it is left.
\<close>

definition advise_workflow ::
  "('p, 'd) project_env \<Rightarrow> string \<Rightarrow> string option \<Rightarrow> string option \<Rightarrow> recommendation_type \<Rightarrow> bool
     \<Rightarrow> (exception + entry list \<times> 'p) \<times> 'd option" where
  "advise_workflow env requirements requirements_locked runtime_env recommendation files =
     (case instantiate_project env requirements requirements_locked files of
        Inl exc \<Rightarrow> (Inl exc, None)
      | Inr project \<Rightarrow>
          (case to_dict env project of
             Inl exc \<Rightarrow> (Inl exc, None)
           | Inr d \<Rightarrow>
               (case project_advise env project runtime_env recommendation of
                  Inl exc \<Rightarrow> (Inl exc, Some d)
                | Inr r \<Rightarrow> (Inr r, Some d))))"

definition advise ::
  "('p, 'd) project_env \<Rightarrow> string \<Rightarrow> python_recommendation_output \<Rightarrow> string option
     \<Rightarrow> recommendation_type \<Rightarrow> string option \<Rightarrow> bool
     \<Rightarrow> exception + 'd advise_result \<times> int" where
  "advise env requirements requirements_format requirements_locked recommendation runtime_env files =
     (let result = \<lparr>ar_error = None, ar_report = [],
                    ar_runtime_environment = runtime_env,
                    ar_recommendation_type = recommendation_type_name_lower recommendation,
                    ar_requirements_format = requirements_format_name_lower requirements_format,
                    ar_input = None,
                    ar_output_requirements = None, ar_output_requirements_locked = None\<rparr>;
          (outcome, inp) =
            advise_workflow env requirements requirements_locked runtime_env recommendation files;
          result = result\<lparr>ar_input := inp\<rparr>
      in case outcome of
           Inl exc \<Rightarrow>
             if isinstance exc ''ThothAdviserException'' then
               if isinstance exc ''InternalError'' then Inl exc
               else
                 (let result = result\<lparr>ar_error := Some True, ar_report := [error_entry exc]\<rparr>
                  in Inr (result, exit_status (ar_error result)))
             else Inl exc
         | Inr (report, project) \<Rightarrow>
             (let result = result\<lparr>ar_error := Some False\<rparr> in
              if report \<noteq> [] then
                (case (if requirements_format = PIPENV then pipfile_to_dict env project
                       else pipfile_to_requirements_file env project) of
                   Inl exc \<Rightarrow> Inl exc
                 | Inr output_requirements \<Rightarrow>
                     (case (if requirements_format = PIPENV then pipfile_lock_to_dict env project
                            else pipfile_lock_to_requirements_file env project) of
                        Inl exc \<Rightarrow> Inl exc
                      | Inr output_requirements_locked \<Rightarrow>
                          (let result = result\<lparr>ar_report := report,
                                 ar_output_requirements := Some output_requirements,
                                 ar_output_requirements_locked := Some output_requirements_locked\<rparr>
                           in Inr (result, exit_status (ar_error result)))))
              else Inr (result, exit_status (ar_error result))))"

section \<open>cli.py: dependency\_monkey\<close>

text \<open>
  The collaborators of the command: reading the manifest, Python's \<^verbatim>\<open>int\<close>, the table
  \<^verbatim>\<open>DECISISON_FUNCTIONS\<close>, \<^verbatim>\<open>json.loads\<close> and the empty dictionary, creating the output
  directory (lines 366-367), the three sinks (storing the project in the Amun context
  and submitting it; the path \<^verbatim>\<open>os.path.join(output, f'{count:05d}')\<close> and writing the
  stack there; \<^verbatim>\<open>json.dump\<close>), the digest lookup, and the dependency graph. The graph's
  \<^verbatim>\<open>walk\<close> is a generator: the model gives the projects it yields, in order, and the
  exception that ends it, if one does (an exception of \<^verbatim>\<open>from_project\<close> ends it before
  the first project). The seed is passed to \<^verbatim>\<open>random.seed\<close> and so reaches the walk.
\<close>

record ('p, 'c, 'f) dm_env =
  dm_instantiate_project :: "string \<Rightarrow> string option \<Rightarrow> bool \<Rightarrow> exception + 'p"
  py_int :: "string \<Rightarrow> exception + int"
  decision_functions :: "string \<rightharpoonup> 'f"
  json_loads :: "string \<Rightarrow> exception + 'c"
  empty_context :: 'c
  ensure_directory :: "string \<Rightarrow> exception option"
  context_with_python :: "'c \<Rightarrow> 'p \<Rightarrow> exception + 'c"
  amun_inspect :: "string \<Rightarrow> 'c \<Rightarrow> exception + string"
  stack_path :: "string \<Rightarrow> int \<Rightarrow> string"
  write_stack :: "string \<Rightarrow> 'p \<Rightarrow> exception option"
  json_dump :: "'p \<Rightarrow> exception option"
  fill_package_digests :: "'p \<Rightarrow> exception + 'p"
  walk :: "'p \<Rightarrow> 'f \<Rightarrow> int option \<Rightarrow> 'p list \<times> exception option"

record dm_args =
  arg_requirements :: string
  arg_stack_output :: string
  arg_report_output :: string
  arg_files :: bool
  arg_seed :: "string option"
  arg_decision :: string
  arg_dry_run :: bool
  arg_context :: "string option"
  arg_no_pretty :: bool
  arg_count :: "string option"

text \<open>
  The result the command prints. Its \<^verbatim>\<open>input\<close> is always \<^verbatim>\<open>None\<close>; the echo of the
  arguments under \<^verbatim>\<open>parameters\<close> is not part of the model.
\<close>

record dm_result =
  dm_error :: bool
  dm_report :: "entry list"
  dm_output :: "string list"
  dm_computed :: "int option"

text \<open>
  What a call of the command leaves behind when it returns: the exit code, the result
  handed to \<^verbatim>\<open>print_command_result\<close> (none when the command returns before building
  it), and the calls of the output function, each with the project and the \<^verbatim>\<open>count\<close>
  argument it was given.
\<close>

record 'p dm_outcome =
  exit_code :: int
  printed :: "dm_result option"
  output_calls :: "('p \<times> int) list"

type_synonym 'p output_function = "'p \<Rightarrow> int \<Rightarrow> exception + string option"

definition dm_amun_inspect_wrapper ::
  "('p, 'c, 'f) dm_env \<Rightarrow> string \<Rightarrow> 'c \<Rightarrow> 'p output_function" where
  "dm_amun_inspect_wrapper env output context generated_project cnt =
     (case context_with_python env context generated_project of
        Inl exc \<Rightarrow> Inl exc
      | Inr context \<Rightarrow>
          (case amun_inspect env output context of
             Inr inspection_id \<Rightarrow> Inr (Some inspection_id)
           | Inl exc \<Rightarrow> if isinstance exc ''Exception'' then Inr None else Inl exc))"

definition dm_amun_directory_output ::
  "('p, 'c, 'f) dm_env \<Rightarrow> string \<Rightarrow> 'p output_function" where
  "dm_amun_directory_output env output generated_project cnt =
     (let path = stack_path env output cnt in
      case write_stack env path generated_project of
        Some exc \<Rightarrow> Inl exc
      | None \<Rightarrow> Inr (Some path))"

definition dm_stdout_output :: "('p, 'c, 'f) dm_env \<Rightarrow> 'p output_function" where
  "dm_stdout_output env generated_project cnt =
     (case json_dump env generated_project of
        Some exc \<Rightarrow> Inl exc
      | None \<Rightarrow> Inr None)"

text \<open>\<^verbatim>\<open>int(v) if v else None\<close>\<close>

definition optional_int :: "('p, 'c, 'f) dm_env \<Rightarrow> string option \<Rightarrow> exception + int option" where
  "optional_int env v =
     (case nonempty v of
        None \<Rightarrow> Inr None
      | Some s \<Rightarrow> (case py_int env s of Inl exc \<Rightarrow> Inl exc | Inr n \<Rightarrow> Inr (Some n)))"

text \<open>
  Lines 346-369 choose the output function, or return an exit code at once.
\<close>

datatype 'a step = Return int | Proceed 'a

definition dm_output_function ::
  "('p, 'c, 'f) dm_env \<Rightarrow> string \<Rightarrow> string option \<Rightarrow> exception + 'p output_function step" where
  "dm_output_function env stack_output context =
     (if startswith stack_output ''https://'' \<or> startswith stack_output ''http://'' then
        (case nonempty context of
           Some s \<Rightarrow>
             (case json_loads env s of
                Inl exc \<Rightarrow> if isinstance exc ''Exception'' then Inr (Return 1) else Inl exc
              | Inr context \<Rightarrow> Inr (Proceed (dm_amun_inspect_wrapper env stack_output context)))
         | None \<Rightarrow> Inr (Proceed (dm_amun_inspect_wrapper env stack_output (empty_context env))))
      else if stack_output = ''-'' then Inr (Proceed (dm_stdout_output env))
      else if truthy context then Inr (Return 2)
      else
        (case ensure_directory env stack_output of
           Some exc \<Rightarrow> Inl exc
         | None \<Rightarrow> Inr (Proceed (dm_amun_directory_output env stack_output))))"

text \<open>
  One round of the \<^verbatim>\<open>for\<close> loop over the walk, up to the test of the count
  (lines 395-403). The state is the counter \<^verbatim>\<open>computed\<close>, the list
  \<^verbatim>\<open>result['output']\<close> and the calls of the output function so far. The round ends
  with the new state, or with the exception of the digest lookup or of the output
  function and the state at that moment.
\<close>

record 'p loop_state =
  ls_computed :: int
  ls_output :: "string list"
  ls_calls :: "('p \<times> int) list"

definition dm_round ::
  "('p \<Rightarrow> exception + 'p) \<Rightarrow> 'p output_function \<Rightarrow> bool \<Rightarrow> 'p \<Rightarrow> 'p loop_state
     \<Rightarrow> exception \<times> 'p loop_state + 'p loop_state" where
  "dm_round fill output_function dry_run generated_project st =
     (let st = st\<lparr>ls_computed := ls_computed st + 1\<rparr> in
      case fill generated_project of
        Inl exc \<Rightarrow> Inl (exc, st)
      | Inr generated_project \<Rightarrow>
          if \<not> dry_run then
            (let st = st\<lparr>ls_calls := ls_calls st @ [(generated_project, ls_computed st)]\<rparr> in
             case output_function generated_project (ls_computed st) of
               Inl exc \<Rightarrow> Inl (exc, st)
             | Inr entry \<Rightarrow>
                 (case nonempty entry of
                    Some entry \<Rightarrow> Inr (st\<lparr>ls_output := ls_output st @ [entry]\<rparr>)
                  | None \<Rightarrow> Inr st))
          else Inr st)"

text \<open>\<^verbatim>\<open>count is not None and computed >= count\<close>\<close>

definition count_reached :: "int option \<Rightarrow> 'p loop_state \<Rightarrow> bool" where
  "count_reached cnt st = (case cnt of None \<Rightarrow> False | Some n \<Rightarrow> ls_computed st \<ge> n)"

text \<open>
  The loop (lines 394-406) takes the projects the walk yields one by one and stops at
  the \<^verbatim>\<open>break\<close> without asking the walk for more. It ends with the exception that
  leaves it, if any: one of a round, or the one that ends the walk.
\<close>

fun dm_loop ::
  "('p \<Rightarrow> exception + 'p) \<Rightarrow> 'p output_function \<Rightarrow> bool \<Rightarrow> int option
     \<Rightarrow> 'p list \<Rightarrow> exception option \<Rightarrow> 'p loop_state \<Rightarrow> exception option \<times> 'p loop_state" where
  "dm_loop fill output_function dry_run cnt [] ending st = (ending, st)"
| "dm_loop fill output_function dry_run cnt (generated_project # rest) ending st =
     (case dm_round fill output_function dry_run generated_project st of
        Inl (exc, st) \<Rightarrow> (Some exc, st)
      | Inr st \<Rightarrow>
          if count_reached cnt st then (None, st)
          else dm_loop fill output_function dry_run cnt rest ending st)"

text \<open>
  Lines 332-369: everything before the result is built. The command goes on with the
  project, the seed, the count, the decision function and the output function, or
  returns an exit code, or an exception leaves it.
\<close>

record ('p, 'f) dm_config =
  cfg_project :: 'p
  cfg_seed :: "int option"
  cfg_count :: "int option"
  cfg_decision_function :: 'f
  cfg_output_function :: "'p output_function"

definition dm_prepare ::
  "('p, 'c, 'f) dm_env \<Rightarrow> dm_args \<Rightarrow> exception + ('p, 'f) dm_config step" where
  "dm_prepare env a =
     (case dm_instantiate_project env (arg_requirements a) None (arg_files a) of
        Inl exc \<Rightarrow> Inl exc
      | Inr project \<Rightarrow>
     (case optional_int env (arg_seed a) of
        Inl exc \<Rightarrow> Inl exc
      | Inr seed \<Rightarrow>
     (case optional_int env (arg_count a) of
        Inl exc \<Rightarrow> Inl exc
      | Inr cnt \<Rightarrow>
     (case decision_functions env (arg_decision a) of
        None \<Rightarrow> Inl (KeyError (arg_decision a))
      | Some decision_function \<Rightarrow>
          if (case cnt of None \<Rightarrow> False | Some n \<Rightarrow> n \<le> 0) then Inr (Return 3)
          else
            (case dm_output_function env (arg_stack_output a) (arg_context a) of
               Inl exc \<Rightarrow> Inl exc
             | Inr (Return code) \<Rightarrow> Inr (Return code)
             | Inr (Proceed output_function) \<Rightarrow>
                 Inr (Proceed \<lparr>cfg_project = project, cfg_seed = seed, cfg_count = cnt,
                        cfg_decision_function = decision_function,
                        cfg_output_function = output_function\<rparr>))))))"

text \<open>Lines 371-422: the result, the loop, the handler, printing and the exit code.\<close>

definition dm_generate ::
  "('p, 'c, 'f) dm_env \<Rightarrow> ('p, 'f) dm_config \<Rightarrow> bool \<Rightarrow> exception + 'p dm_outcome" where
  "dm_generate env cfg dry_run =
     (let result = \<lparr>dm_error = False, dm_report = [], dm_output = [], dm_computed = None\<rparr>;
          (yielded, ending) =
            walk env (cfg_project cfg) (cfg_decision_function cfg) (cfg_seed cfg);
          (raised, st) =
            dm_loop (fill_package_digests env) (cfg_output_function cfg) dry_run (cfg_count cfg)
              yielded ending \<lparr>ls_computed = 0, ls_output = [], ls_calls = []\<rparr>;
          result = result\<lparr>dm_output := ls_output st\<rparr>
      in case raised of
           None \<Rightarrow>
             (let result = result\<lparr>dm_computed := Some (ls_computed st)\<rparr> in
              Inr \<lparr>exit_code = (if dm_error result then 1 else 0),
                   printed = Some result, output_calls = ls_calls st\<rparr>)
         | Some exc \<Rightarrow>
             if isinstance exc ''SolverException'' then
               (let result = result\<lparr>dm_error := True\<rparr> in
                Inr \<lparr>exit_code = (if dm_error result then 1 else 0),
                     printed = Some result, output_calls = ls_calls st\<rparr>)
             else Inl exc)"

definition dependency_monkey ::
  "('p, 'c, 'f) dm_env \<Rightarrow> dm_args \<Rightarrow> exception + 'p dm_outcome" where
  "dependency_monkey env a =
     (case dm_prepare env a of
        Inl exc \<Rightarrow> Inl exc
      | Inr (Return code) \<Rightarrow> Inr \<lparr>exit_code = code, printed = None, output_calls = []\<rparr>
      | Inr (Proceed cfg) \<Rightarrow> dm_generate env cfg (arg_dry_run a))"

section \<open>Example inputs\<close>

definition example_justification :: "entry list" where
  "example_justification =
     [[''package_name'' \<mapsto> ''tensorflow'', ''type'' \<mapsto> ''WARNING'', ''message'' \<mapsto> ''slow build''],
      [''type'' \<mapsto> ''INFO'', ''message'' \<mapsto> ''stack resolved''],
      [''package_name'' \<mapsto> ''flask'', ''type'' \<mapsto> ''INFO'', ''message'' \<mapsto> ''ok'']]"

definition example_state :: state where
  "example_state =
     \<lparr>resolved = [''flask'' \<mapsto> ''1.0''], unresolved = [], score = 1,
      justification = example_justification\<rparr>"

text \<open>A state whose second entry has no \<open>type\<close>.\<close>

definition untyped_state :: state where
  "untyped_state =
     \<lparr>resolved = [''flask'' \<mapsto> ''1.0''], unresolved = [''click''], score = 0,
      justification = [[''type'' \<mapsto> ''INFO'', ''message'' \<mapsto> ''b''], [''message'' \<mapsto> ''a'']]\<rparr>"

definition example_is_fully_specified :: "runtime_environment \<Rightarrow> bool" where
  "example_is_fully_specified env =
     (os_name (operating_system env) \<noteq> None \<and> os_version (operating_system env) \<noteq> None
      \<and> python_version env \<noteq> None)"

definition example_repr :: "string option \<Rightarrow> string" where
  "example_repr v = (case v of None \<Rightarrow> ''None'' | Some s \<Rightarrow> [CHR 0x27] @ s @ [CHR 0x27])"

definition example_jl :: "string \<Rightarrow> string" where
  "example_jl name = ''https://thoth-station.ninja/j/'' @ name"

definition underspecified_context :: boot_context where
  "underspecified_context =
     \<lparr>context_project = \<lparr>runtime_environment =
        \<lparr>operating_system = \<lparr>os_name = Some ''rhel'', os_version = Some ''8''\<rparr>,
         python_version = None\<rparr>\<rparr>,
      stack_info = []\<rparr>"

definition specified_context :: boot_context where
  "specified_context =
     \<lparr>context_project = \<lparr>runtime_environment =
        \<lparr>operating_system = \<lparr>os_name = Some ''rhel'', os_version = Some ''8''\<rparr>,
         python_version = Some ''3.6''\<rparr>\<rparr>,
      stack_info = [[''type'' \<mapsto> ''INFO'', ''message'' \<mapsto> ''hello'']]\<rparr>"

definition adviser_builder :: builder_context where
  "adviser_builder = \<lparr>kind = Advise, included = [''SortJustificationsWrap'']\<rparr>"

definition monkey_builder :: builder_context where
  "monkey_builder = \<lparr>kind = DependencyMonkey, included = [''FullySpecifiedEnvironment'']\<rparr>"

definition internal_error :: exception where
  "internal_error =
     \<lparr>exc_type = ''InternalError'',
      exc_bases = [''ThothAdviserException'', ''Exception'', ''BaseException''],
      exc_str = ''invariant broken''\<rparr>"

definition pipfile_parse_error :: exception where
  "pipfile_parse_error =
     \<lparr>exc_type = ''PipfileParseError'',
      exc_bases = [''ThothAdviserException'', ''Exception'', ''BaseException''],
      exc_str = ''bad Pipfile''\<rparr>"

text \<open>
  Collaborators for which the manifests parse and the check, or the advice, raises the
  given exception.
\<close>

definition failing_project_env :: "exception \<Rightarrow> (string, string) project_env" where
  "failing_project_env exc =
     \<lparr>instantiate_project = (\<lambda>requirements requirements_locked files. Inr ''project''),
      to_dict = (\<lambda>project. Inr ''input''),
      check_provenance = (\<lambda>project whitelisted_sources. Inl exc),
      project_advise = (\<lambda>project runtime_env recommendation. Inl exc),
      pipfile_to_dict = (\<lambda>project. Inr ''Pipfile''),
      pipfile_lock_to_dict = (\<lambda>project. Inr ''Pipfile.lock''),
      pipfile_to_requirements_file = (\<lambda>project. Inr ''requirements.in''),
      pipfile_lock_to_requirements_file = (\<lambda>project. Inr ''requirements.txt'')\<rparr>"

definition solver_exception :: exception where
  "solver_exception =
     \<lparr>exc_type = ''SolverException'', exc_bases = [''Exception'', ''BaseException''],
      exc_str = ''no matching version''\<rparr>"

definition json_decode_error :: exception where
  "json_decode_error =
     \<lparr>exc_type = ''JSONDecodeError'',
      exc_bases = [''ValueError'', ''Exception'', ''BaseException''],
      exc_str = ''Expecting property name''\<rparr>"

definition value_error :: exception where
  "value_error =
     \<lparr>exc_type = ''ValueError'', exc_bases = [''Exception'', ''BaseException''],
      exc_str = ''invalid literal for int()''\<rparr>"

text \<open>
  Collaborators for the examples: a walk that yields the given stacks and ends as
  given, an \<open>int\<close> that reads four numerals, a JSON reader that accepts the empty
  object only, and sinks that never fail.
\<close>

definition example_dm_env :: "string list \<Rightarrow> exception option \<Rightarrow> (string, string, string) dm_env" where
  "example_dm_env stacks ending =
     \<lparr>dm_instantiate_project = (\<lambda>requirements requirements_locked files. Inr ''project''),
      py_int = (\<lambda>s. case map_of [(''-1'', - 1), (''0'', 0), (''1'', 1), (''2'', 2)] s of
                       Some n \<Rightarrow> Inr n | None \<Rightarrow> Inl value_error),
      decision_functions = [''all'' \<mapsto> ''everything''],
      json_loads = (\<lambda>s. if s = ''{}'' then Inr ''{}'' else Inl json_decode_error),
      empty_context = ''{}'',
      ensure_directory = (\<lambda>directory. None),
      context_with_python = (\<lambda>context project. Inr context),
      amun_inspect = (\<lambda>output context. Inr ''inspection-1''),
      stack_path = (\<lambda>output n. output @ (if n = 1 then ''/00001'' else if n = 2 then ''/00002''
                                            else ''/00003'')),
      write_stack = (\<lambda>path project. None),
      json_dump = (\<lambda>project. None),
      fill_package_digests = (\<lambda>project. Inr project),
      walk = (\<lambda>project decision_function seed. (stacks, ending))\<rparr>"

definition example_args :: dm_args where
  "example_args =
     \<lparr>arg_requirements = ''Pipfile'', arg_stack_output = ''/out'', arg_report_output = ''-'',
      arg_files = True, arg_seed = None, arg_decision = ''all'', arg_dry_run = False,
      arg_context = None, arg_no_pretty = False, arg_count = None\<rparr>"

section \<open>Properties of the sorting wrap\<close>


lemma compute_keys_length:
  "compute_keys js = Inr ks \<Longrightarrow> length ks = length js"
  by (induction js arbitrary: ks) (auto split: sum.splits)


lemma compute_keys_pairs:
  "compute_keys js = Inr ks \<Longrightarrow> \<forall>(k, i) \<in> set (zip ks js). entry_key i = Inr k"
  by (induction js arbitrary: ks) (auto split: sum.splits)

lemma compute_keys_of_pairs:
  "\<forall>(k, i) \<in> set ps. entry_key i = Inr k \<Longrightarrow> compute_keys (map snd ps) = Inr (map fst ps)"
  by (induction ps) auto

lemma list_sort_keys:
  assumes "list_sort js = Inr js'"
  shows "\<exists>ps. js' = map snd ps \<and> compute_keys js' = Inr (map fst ps)
           \<and> sorted (map fst ps) \<and> mset ps = mset (zip (map fst ps) js') \<and> mset js' = mset js"
proof -
  from assms obtain ks where ks: "compute_keys js = Inr ks"
    and js': "js' = map snd (sort_key fst (zip ks js))"
    by (auto simp: list_sort_def split: sum.splits)
  let ?ps = "sort_key fst (zip ks js)"
  have len: "length ks = length js"
    using ks by (rule compute_keys_length)
  have "\<forall>(k, i) \<in> set ?ps. entry_key i = Inr k"
    using compute_keys_pairs [OF ks] by simp
  then have keys: "compute_keys (map snd ?ps) = Inr (map fst ?ps)"
    by (rule compute_keys_of_pairs)
  have srt: "sorted (map fst ?ps)"
    by (rule sorted_sort_key)
  have "mset (map snd ?ps) = image_mset snd (mset (zip ks js))"
    by simp
  also have "\<dots> = mset (map snd (zip ks js))"
    by simp
  also have "\<dots> = mset js"
    using len by simp
  finally have perm: "mset (map snd ?ps) = mset js" .
  have "zip (map fst ?ps) (map snd ?ps) = ?ps"
    by (simp add: zip_map_fst_snd)
  with js' keys srt perm show ?thesis
    by (intro exI [of _ ?ps]) simp
qed



lemma entry_key_KeyError:
  "entry_key i = Inl e \<Longrightarrow> \<exists>k. e = KeyError k"
  by (auto simp: entry_key_def Let_def split: option.splits)

lemma compute_keys_KeyError:
  "compute_keys js = Inl e \<Longrightarrow> \<exists>k. e = KeyError k"
  by (induction js) (auto split: sum.splits dest: entry_key_KeyError)

lemma list_sort_KeyError:
  "list_sort js = Inl e \<Longrightarrow> \<exists>k. e = KeyError k"
  by (auto simp: list_sort_def split: sum.splits dest: compute_keys_KeyError)

lemma KeyError_not_NotAcceptable: "\<not> isinstance (KeyError k) ''NotAcceptable''"
  by (simp add: isinstance_def KeyError_def)



text \<open>
  C7. For every state, an exception that leaves the wrap is never \<open>NotAcceptable\<close>
  (it can only be the \<open>KeyError\<close> of the key function), the justification afterwards
  has the same entries with the same multiplicities as before, and \<open>resolved\<close>,
  \<open>unresolved\<close> and \<open>score\<close> are as before.
\<close>

theorem sort_justifications_frame:
  "(\<forall>e. fst (SortJustificationsWrap_run s) = Some e \<longrightarrow> \<not> isinstance e ''NotAcceptable'')
   \<and> mset (justification (snd (SortJustificationsWrap_run s))) = mset (justification s)
   \<and> length (justification (snd (SortJustificationsWrap_run s))) = length (justification s)
   \<and> resolved (snd (SortJustificationsWrap_run s)) = resolved s
   \<and> unresolved (snd (SortJustificationsWrap_run s)) = unresolved s
   \<and> score (snd (SortJustificationsWrap_run s)) = score s"
proof (cases "list_sort (justification s)")
  case (Inl e)
  then have run: "SortJustificationsWrap_run s = (Some e, s)"
    by (simp add: SortJustificationsWrap_run_def)
  from Inl obtain k where "e = KeyError k"
    using list_sort_KeyError by blast
  with run show ?thesis
    by (simp add: KeyError_not_NotAcceptable)
next
  case (Inr js')
  then have run: "SortJustificationsWrap_run s = (None, s\<lparr>justification := js'\<rparr>)"
    by (simp add: SortJustificationsWrap_run_def)
  from list_sort_keys [OF Inr] have perm: "mset js' = mset (justification s)"
    by auto
  then have "length js' = length (justification s)"
    by (rule mset_eq_length)
  with run perm show ?thesis by simp
qed

theorem sort_justifications_frame_witness:
  "fst (SortJustificationsWrap_run untyped_state) = Some (KeyError ''type'')
   \<and> \<not> isinstance (KeyError ''type'') ''NotAcceptable''
   \<and> snd (SortJustificationsWrap_run untyped_state) = untyped_state
   \<and> mset (justification (snd (SortJustificationsWrap_run example_state)))
       = mset (justification example_state)"
proof -
  have run: "SortJustificationsWrap_run untyped_state = (Some (KeyError ''type''), untyped_state)"
    by (simp add: SortJustificationsWrap_run_def list_sort_def untyped_state_def entry_key_def)
  with sort_justifications_frame [of untyped_state] sort_justifications_frame [of example_state]
  show ?thesis by simp
qed

lemma NotAcceptable_is_NotAcceptable: "isinstance (NotAcceptable msg) ''NotAcceptable''"
  by (simp add: isinstance_def NotAcceptable_def)

text \<open>
  C2. The boot raises \<open>NotAcceptable\<close> exactly when the runtime environment of the
  project is not fully specified. Then it has appended one entry to \<open>stack_info\<close>,
  of type \<open>ERROR\<close>, with the message of the exception and the justification link,
  and has changed nothing else. When the environment is fully specified it returns
  with the context as it was.
\<close>

theorem fully_specified_environment_run:
  "((\<exists>e. fst (FullySpecifiedEnvironment_run f r j ctx) = Some e \<and> isinstance e ''NotAcceptable'')
      \<longleftrightarrow> \<not> f (runtime_environment (context_project ctx)))
   \<and> (\<not> f (runtime_environment (context_project ctx)) \<longrightarrow>
        fst (FullySpecifiedEnvironment_run f r j ctx)
          = Some (NotAcceptable (not_fully_specified_msg r (runtime_environment (context_project ctx))))
        \<and> (\<exists>entry. stack_info (snd (FullySpecifiedEnvironment_run f r j ctx)) = stack_info ctx @ [entry]
              \<and> entry ''type'' = Some ''ERROR''
              \<and> entry ''message''
                  = Some (not_fully_specified_msg r (runtime_environment (context_project ctx)))
              \<and> entry ''link'' = Some (j ''fully_specified_env''))
        \<and> length (stack_info (snd (FullySpecifiedEnvironment_run f r j ctx)))
            = length (stack_info ctx) + 1
        \<and> context_project (snd (FullySpecifiedEnvironment_run f r j ctx)) = context_project ctx)
   \<and> (f (runtime_environment (context_project ctx)) \<longrightarrow>
        FullySpecifiedEnvironment_run f r j ctx = (None, ctx))"
  by (simp add: FullySpecifiedEnvironment_run_def Let_def NotAcceptable_is_NotAcceptable)

theorem fully_specified_environment_run_witness:
  "\<not> example_is_fully_specified (runtime_environment (context_project underspecified_context))
   \<and> fst (FullySpecifiedEnvironment_run example_is_fully_specified example_repr example_jl
            underspecified_context)
       = Some (NotAcceptable (''Software environment supplied is not fully specified, ''
                @ ''OS name is 'rhel' in version '8' using Python None''))
   \<and> stack_info (snd (FullySpecifiedEnvironment_run example_is_fully_specified example_repr
            example_jl underspecified_context))
       = [[''message'' \<mapsto> ''Software environment supplied is not fully specified, ''
                @ ''OS name is 'rhel' in version '8' using Python None'',
           ''type'' \<mapsto> ''ERROR'',
           ''link'' \<mapsto> ''https://thoth-station.ninja/j/fully_specified_env'']]
   \<and> example_is_fully_specified (runtime_environment (context_project specified_context))
   \<and> FullySpecifiedEnvironment_run example_is_fully_specified example_repr example_jl
        specified_context = (None, specified_context)"
  using fully_specified_environment_run
          [of example_is_fully_specified example_repr example_jl underspecified_context]
        fully_specified_environment_run
          [of example_is_fully_specified example_repr example_jl specified_context]
  by (simp add: FullySpecifiedEnvironment_run_def example_is_fully_specified_def
        example_repr_def example_jl_def underspecified_context_def specified_context_def
        not_fully_specified_msg_def Let_def)

text \<open>
  C8. The boot's \<open>should_include\<close> yields the empty parameter-set, once, when the
  builder context is an adviser pipeline that does not yet include the class; it yields
  nothing otherwise. It never yields more than once.
\<close>

theorem boot_should_include:
  "(is_adviser_pipeline bc \<and> \<not> is_included bc ''FullySpecifiedEnvironment''
      \<longrightarrow> FullySpecifiedEnvironment_should_include bc = [Map.empty])
   \<and> (\<not> (is_adviser_pipeline bc \<and> \<not> is_included bc ''FullySpecifiedEnvironment'')
      \<longrightarrow> FullySpecifiedEnvironment_should_include bc = [])
   \<and> length (FullySpecifiedEnvironment_should_include bc) \<le> 1"
  by (simp add: FullySpecifiedEnvironment_should_include_def)

theorem boot_should_include_witness:
  "is_adviser_pipeline adviser_builder
   \<and> \<not> is_included adviser_builder ''FullySpecifiedEnvironment''
   \<and> FullySpecifiedEnvironment_should_include adviser_builder = [Map.empty]
   \<and> \<not> is_adviser_pipeline monkey_builder
   \<and> FullySpecifiedEnvironment_should_include monkey_builder = []
   \<and> is_included (adviser_builder\<lparr>included := [''FullySpecifiedEnvironment'']\<rparr>)
        ''FullySpecifiedEnvironment''
   \<and> FullySpecifiedEnvironment_should_include
        (adviser_builder\<lparr>included := [''FullySpecifiedEnvironment'']\<rparr>) = []"
  using boot_should_include [of adviser_builder] boot_should_include [of monkey_builder]
    boot_should_include [of "adviser_builder\<lparr>included := [''FullySpecifiedEnvironment'']\<rparr>"]
  by (simp add: is_adviser_pipeline_def is_included_def adviser_builder_def monkey_builder_def)

text \<open>
  C9. The wrap's \<open>should_include\<close> yields the empty parameter-set, once, when the
  builder context does not yet include the class, and nothing when it does. The kind of
  pipeline has no influence on what it yields.
\<close>

theorem wrap_should_include:
  "(\<not> is_included bc ''SortJustificationsWrap''
      \<longrightarrow> SortJustificationsWrap_should_include bc = [Map.empty])
   \<and> (is_included bc ''SortJustificationsWrap''
      \<longrightarrow> SortJustificationsWrap_should_include bc = [])
   \<and> SortJustificationsWrap_should_include (bc\<lparr>kind := k\<rparr>)
       = SortJustificationsWrap_should_include bc"
  by (simp add: SortJustificationsWrap_should_include_def is_included_def)

theorem wrap_should_include_witness:
  "\<not> is_included monkey_builder ''SortJustificationsWrap''
   \<and> \<not> is_adviser_pipeline monkey_builder
   \<and> SortJustificationsWrap_should_include monkey_builder = [Map.empty]
   \<and> FullySpecifiedEnvironment_should_include
        (monkey_builder\<lparr>included := []\<rparr>) = []
   \<and> is_included adviser_builder ''SortJustificationsWrap''
   \<and> SortJustificationsWrap_should_include adviser_builder = []"
  using wrap_should_include [of monkey_builder] wrap_should_include [of adviser_builder]
  by (simp add: is_adviser_pipeline_def is_included_def adviser_builder_def monkey_builder_def
        FullySpecifiedEnvironment_should_include_def)

text \<open>
  C5. In \<open>provenance\<close> and in \<open>advise\<close>, an exception raised in the body of the
  \<open>try\<close> that is an \<open>InternalError\<close> leaves the command. One that is a
  \<open>ThothAdviserException\<close> and not an \<open>InternalError\<close> is caught: the command
  returns 1 and prints a result whose \<open>error\<close> is \<open>True\<close> and whose report is the
  single entry of type \<open>ERROR\<close> with the justification "message (class name)".
\<close>

theorem internal_error_propagates_others_reported:
  "(fst (provenance_workflow env requirements requirements_locked (split_sources sources) files)
       = Inl exc \<longrightarrow>
      (isinstance exc ''InternalError'' \<longrightarrow>
         provenance env requirements requirements_locked sources files = Inl exc)
      \<and> (isinstance exc ''ThothAdviserException'' \<and> \<not> isinstance exc ''InternalError'' \<longrightarrow>
           (\<exists>result. provenance env requirements requirements_locked sources files = Inr (result, 1)
              \<and> pr_error result = Some True
              \<and> pr_report result
                  = [[''type'' \<mapsto> ''ERROR'',
                      ''justification'' \<mapsto> exc_str exc @ '' ('' @ exc_type exc @ '')'']])))
   \<and> (fst (advise_workflow env requirements locked runtime_env recommendation files) = Inl exc \<longrightarrow>
      (isinstance exc ''InternalError'' \<longrightarrow>
         advise env requirements fmt locked recommendation runtime_env files = Inl exc)
      \<and> (isinstance exc ''ThothAdviserException'' \<and> \<not> isinstance exc ''InternalError'' \<longrightarrow>
           (\<exists>result. advise env requirements fmt locked recommendation runtime_env files
                = Inr (result, 1)
              \<and> ar_error result = Some True
              \<and> ar_report result
                  = [[''type'' \<mapsto> ''ERROR'',
                      ''justification'' \<mapsto> exc_str exc @ '' ('' @ exc_type exc @ '')'']])))"
proof (intro conjI impI)
  assume "fst (provenance_workflow env requirements requirements_locked (split_sources sources) files)
            = Inl exc"
  then obtain inp where w:
    "provenance_workflow env requirements requirements_locked (split_sources sources) files
       = (Inl exc, inp)"
    by (cases "provenance_workflow env requirements requirements_locked (split_sources sources) files")
      simp
  show "provenance env requirements requirements_locked sources files = Inl exc"
    if "isinstance exc ''InternalError''"
    using w that by (simp add: provenance_def)
  show "\<exists>result. provenance env requirements requirements_locked sources files = Inr (result, 1)
          \<and> pr_error result = Some True
          \<and> pr_report result
              = [[''type'' \<mapsto> ''ERROR'',
                  ''justification'' \<mapsto> exc_str exc @ '' ('' @ exc_type exc @ '')'']]"
    if "isinstance exc ''ThothAdviserException'' \<and> \<not> isinstance exc ''InternalError''"
    using w that by (simp add: provenance_def error_entry_def exit_status_def)
next
  assume "fst (advise_workflow env requirements locked runtime_env recommendation files) = Inl exc"
  then obtain inp where w:
    "advise_workflow env requirements locked runtime_env recommendation files = (Inl exc, inp)"
    by (cases "advise_workflow env requirements locked runtime_env recommendation files") simp
  show "advise env requirements fmt locked recommendation runtime_env files = Inl exc"
    if "isinstance exc ''InternalError''"
    using w that by (simp add: advise_def)
  show "\<exists>result. advise env requirements fmt locked recommendation runtime_env files
            = Inr (result, 1)
          \<and> ar_error result = Some True
          \<and> ar_report result
              = [[''type'' \<mapsto> ''ERROR'',
                  ''justification'' \<mapsto> exc_str exc @ '' ('' @ exc_type exc @ '')'']]"
    if "isinstance exc ''ThothAdviserException'' \<and> \<not> isinstance exc ''InternalError''"
    using w that by (simp add: advise_def error_entry_def exit_status_def)
qed

theorem internal_error_propagates_others_reported_witness:
  "fst (provenance_workflow (failing_project_env internal_error) ''Pipfile'' ''Pipfile.lock'' (split_sources None) False) = Inl internal_error
   \<and> isinstance internal_error ''InternalError''
   \<and> provenance (failing_project_env internal_error) ''Pipfile'' ''Pipfile.lock'' None False
       = Inl internal_error
   \<and> fst (advise_workflow (failing_project_env internal_error) ''Pipfile'' None None STABLE False) = Inl internal_error
   \<and> advise (failing_project_env internal_error) ''Pipfile'' PIPENV None STABLE None False
       = Inl internal_error
   \<and> fst (provenance_workflow (failing_project_env pipfile_parse_error) ''Pipfile'' ''Pipfile.lock'' (split_sources None) False) = Inl pipfile_parse_error
   \<and> isinstance pipfile_parse_error ''ThothAdviserException''
   \<and> \<not> isinstance pipfile_parse_error ''InternalError''
   \<and> provenance (failing_project_env pipfile_parse_error) ''Pipfile'' ''Pipfile.lock'' None False
       = Inr (\<lparr>pr_error = Some True,
               pr_report = [[''type'' \<mapsto> ''ERROR'',
                             ''justification'' \<mapsto> ''bad Pipfile (PipfileParseError)'']],
               pr_whitelisted_indexes = [], pr_input = Some ''input''\<rparr>, 1)
   \<and> fst (advise_workflow (failing_project_env pipfile_parse_error) ''Pipfile'' None None STABLE False) = Inl pipfile_parse_error
   \<and> advise (failing_project_env pipfile_parse_error) ''Pipfile'' PIPENV None STABLE None False
       = Inr (\<lparr>ar_error = Some True,
               ar_report = [[''type'' \<mapsto> ''ERROR'',
                             ''justification'' \<mapsto> ''bad Pipfile (PipfileParseError)'']],
               ar_runtime_environment = None, ar_recommendation_type = ''stable'',
               ar_requirements_format = ''pipenv'', ar_input = Some ''input'',
               ar_output_requirements = None, ar_output_requirements_locked = None\<rparr>, 1)"
  using internal_error_propagates_others_reported
          [of "failing_project_env internal_error" "''Pipfile''" "''Pipfile.lock''" None False
              internal_error None None STABLE PIPENV]
        internal_error_propagates_others_reported
          [of "failing_project_env pipfile_parse_error" "''Pipfile''" "''Pipfile.lock''" None False
              pipfile_parse_error None None STABLE PIPENV]
  by (simp add: provenance_def advise_def provenance_workflow_def advise_workflow_def
        failing_project_env_def internal_error_def pipfile_parse_error_def isinstance_def
        split_sources_def nonempty_def truthy_def error_entry_def exit_status_def)

section \<open>Properties of the loop of dependency\_monkey\<close>

lemma dm_round_Inr:
  assumes "dm_round fill out dry p st = Inr st'"
  shows "ls_computed st' = ls_computed st + 1"
    and "length (ls_calls st') \<le> length (ls_calls st) + 1"
    and "length (ls_output st') \<le> length (ls_output st) + 1"
    and "dry \<Longrightarrow> ls_calls st' = ls_calls st \<and> ls_output st' = ls_output st"
  using assms
  by (auto simp: dm_round_def Let_def split: sum.splits option.splits if_splits)

lemma dm_round_Inl:
  assumes "dm_round fill out dry p st = Inl (exc, st')"
  shows "ls_computed st' = ls_computed st + 1"
    and "length (ls_calls st') \<le> length (ls_calls st) + 1"
    and "length (ls_output st') \<le> length (ls_output st) + 1"
    and "dry \<Longrightarrow> ls_calls st' = ls_calls st \<and> ls_output st' = ls_output st"
  using assms
  by (auto simp: dm_round_def Let_def split: sum.splits option.splits if_splits)

lemma dm_round_dry:
  "fill p = Inr g \<Longrightarrow> dm_round fill out True p st = Inr (st\<lparr>ls_computed := ls_computed st + 1\<rparr>)"
  by (simp add: dm_round_def)

lemma dm_loop_cap:
  "dm_loop fill out dry (Some n) ys ending st0 = (r, st) \<Longrightarrow> ls_computed st0 < n \<Longrightarrow>
     ls_computed st \<le> n \<and> ls_computed st0 \<le> ls_computed st
     \<and> int (length (ls_calls st)) \<le> int (length (ls_calls st0)) + (ls_computed st - ls_computed st0)
     \<and> int (length (ls_output st)) \<le> int (length (ls_output st0)) + (ls_computed st - ls_computed st0)"
proof (induction ys arbitrary: st0)
  case Nil
  then show ?case by simp
next
  case (Cons y rest)
  show ?case
  proof (cases "dm_round fill out dry y st0")
    case (Inl failure)
    obtain exc st1 where failure: "failure = (exc, st1)"
      by (cases failure)
    with Inl Cons.prems have "st = st1"
      by simp
    with Inl failure Cons.prems(2) dm_round_Inl [of fill out dry y st0 exc st1] show ?thesis
      by simp
  next
    case (Inr st1)
    note facts = dm_round_Inr [OF Inr]
    show ?thesis
    proof (cases "count_reached (Some n) st1")
      case True
      with Inr Cons.prems have "st = st1"
        by simp
      with facts Cons.prems(2) show ?thesis
        by simp
    next
      case False
      with Inr Cons.prems have loop: "dm_loop fill out dry (Some n) rest ending st1 = (r, st)"
        by simp
      from False have "ls_computed st1 < n"
        by (simp add: count_reached_def)
      from Cons.IH [OF loop this] facts show ?thesis
        by simp
    qed
  qed
qed

lemma dm_loop_take:
  "ls_computed st0 < n \<Longrightarrow>
     dm_loop fill out dry (Some n) ys ending st0
       = dm_loop fill out dry (Some n) (take (nat (n - ls_computed st0)) ys)
           (if nat (n - ls_computed st0) \<le> length ys then None else ending) st0"
proof (induction ys arbitrary: st0)
  case Nil
  then show ?case by simp
next
  case (Cons y rest)
  from Cons.prems have "nat (n - ls_computed st0) = Suc (nat (n - (ls_computed st0 + 1)))"
    by arith
  then have tk: "take (nat (n - ls_computed st0)) (y # rest)
      = y # take (nat (n - (ls_computed st0 + 1))) rest"
    by simp
  show ?case
  proof (cases "dm_round fill out dry y st0")
    case (Inl failure)
    then show ?thesis
      by (simp add: tk split: prod.splits)
  next
    case (Inr st1)
    note facts = dm_round_Inr [OF Inr]
    show ?thesis
    proof (cases "count_reached (Some n) st1")
      case True
      with Inr show ?thesis by (simp add: tk)
    next
      case False
      then have lt: "ls_computed st1 < n"
        by (simp add: count_reached_def)
      have "(nat (n - ls_computed st0) \<le> length (y # rest))
              = (nat (n - ls_computed st1) \<le> length rest)"
        using facts(1) lt by auto
      with Cons.IH [OF lt] Inr False facts(1) show ?thesis
        by (simp add: tk)
    qed
  qed
qed

lemma dm_loop_dry:
  "dry \<Longrightarrow> dm_loop fill out dry cnt ys ending st0 = (r, st) \<Longrightarrow>
     ls_calls st = ls_calls st0 \<and> ls_output st = ls_output st0"
proof (induction ys arbitrary: st0)
  case Nil
  then show ?case by simp
next
  case (Cons y rest)
  show ?case
  proof (cases "dm_round fill out dry y st0")
    case (Inl failure)
    obtain exc st1 where failure: "failure = (exc, st1)"
      by (cases failure)
    with Inl Cons.prems have "st = st1"
      by simp
    with Inl failure Cons.prems(1) dm_round_Inl(4) [of fill out dry y st0 exc st1] show ?thesis
      by simp
  next
    case (Inr st1)
    note facts = dm_round_Inr(4) [OF Inr Cons.prems(1)]
    show ?thesis
    proof (cases "count_reached cnt st1")
      case True
      with Inr Cons.prems have "st = st1"
        by simp
      with facts show ?thesis
        by simp
    next
      case False
      with Inr Cons.prems have "dm_loop fill out dry cnt rest ending st1 = (r, st)"
        by simp
      from Cons.IH [OF Cons.prems(1) this] facts show ?thesis
        by simp
    qed
  qed
qed

lemma dm_loop_dry_count:
  "\<forall>y \<in> set ys. \<exists>g. fill y = Inr g \<Longrightarrow> \<not> count_reached cnt st0 \<Longrightarrow>
     dm_loop fill out True cnt ys None st0
       = (None, st0\<lparr>ls_computed :=
            (case cnt of
               None \<Rightarrow> ls_computed st0 + int (length ys)
             | Some n \<Rightarrow> min (ls_computed st0 + int (length ys)) n)\<rparr>)"
proof (induction ys arbitrary: st0)
  case Nil
  then show ?case
    by (auto simp: count_reached_def split: option.splits)
next
  case (Cons y rest)
  from Cons.prems(1) obtain g where "fill y = Inr g"
    by auto
  then have round: "dm_round fill out True y st0 = Inr (st0\<lparr>ls_computed := ls_computed st0 + 1\<rparr>)"
    by (rule dm_round_dry)
  let ?st1 = "st0\<lparr>ls_computed := ls_computed st0 + 1\<rparr>"
  show ?case
  proof (cases "count_reached cnt ?st1")
    case True
    with round Cons.prems(2) show ?thesis
      by (auto simp: count_reached_def split: option.splits)
  next
    case False
    from Cons.prems(1) have "\<forall>y \<in> set rest. \<exists>g. fill y = Inr g"
      by simp
    from Cons.IH [OF this False] round False show ?thesis
      by (auto simp: count_reached_def split: option.splits)
  qed
qed

lemma dm_loop_ending:
  "dm_loop fill out dry cnt ys None st0 = (None, st) \<Longrightarrow> \<not> count_reached cnt st \<Longrightarrow>
     dm_loop fill out dry cnt ys ending st0 = (ending, st)"
proof (induction ys arbitrary: st0)
  case Nil
  then show ?case by simp
next
  case (Cons y rest)
  show ?case
  proof (cases "dm_round fill out dry y st0")
    case (Inl failure)
    with Cons.prems(1) show ?thesis
      by (simp split: prod.splits)
  next
    case (Inr st1)
    show ?thesis
    proof (cases "count_reached cnt st1")
      case True
      with Inr Cons.prems show ?thesis
        by simp
    next
      case False
      with Inr Cons.prems(1) have "dm_loop fill out dry cnt rest None st1 = (None, st)"
        by simp
      from Cons.IH [OF this Cons.prems(2)] Inr False show ?thesis
        by simp
    qed
  qed
qed

section \<open>Properties of dependency\_monkey\<close>

lemma dm_prepare_ProceedD:
  assumes "dm_prepare env a = Inr (Proceed cfg)"
  shows "\<exists>project seed cnt decision_function output_function.
           dm_instantiate_project env (arg_requirements a) None (arg_files a) = Inr project
           \<and> optional_int env (arg_seed a) = Inr seed
           \<and> optional_int env (arg_count a) = Inr cnt
           \<and> decision_functions env (arg_decision a) = Some decision_function
           \<and> \<not> (case cnt of None \<Rightarrow> False | Some n \<Rightarrow> n \<le> 0)
           \<and> dm_output_function env (arg_stack_output a) (arg_context a) = Inr (Proceed output_function)
           \<and> cfg = \<lparr>cfg_project = project, cfg_seed = seed, cfg_count = cnt,
                     cfg_decision_function = decision_function,
                     cfg_output_function = output_function\<rparr>"
proof (cases "dm_instantiate_project env (arg_requirements a) None (arg_files a)")
  case (Inl exc)
  with assms show ?thesis by (simp add: dm_prepare_def)
next
  case project: (Inr project)
  show ?thesis
  proof (cases "optional_int env (arg_seed a)")
    case (Inl exc)
    with assms project show ?thesis by (simp add: dm_prepare_def)
  next
    case seed: (Inr seed)
    show ?thesis
    proof (cases "optional_int env (arg_count a)")
      case (Inl exc)
      with assms project seed show ?thesis by (simp add: dm_prepare_def)
    next
      case cnt: (Inr cnt)
      show ?thesis
      proof (cases "decision_functions env (arg_decision a)")
        case None
        with assms project seed cnt show ?thesis by (simp add: dm_prepare_def)
      next
        case df: (Some decision_function)
        show ?thesis
        proof (cases "case cnt of None \<Rightarrow> False | Some n \<Rightarrow> n \<le> 0")
          case True
          with assms project seed cnt df show ?thesis by (simp add: dm_prepare_def)
        next
          case False
          show ?thesis
          proof (cases "dm_output_function env (arg_stack_output a) (arg_context a)")
            case (Inl exc)
            with assms project seed cnt df False show ?thesis by (simp add: dm_prepare_def)
          next
            case (Inr chosen)
            with assms project seed cnt df False show ?thesis
              by (cases chosen) (simp_all add: dm_prepare_def)
          qed
        qed
      qed
    qed
  qed
qed

lemma dm_prepare_count:
  assumes "dm_prepare env a = Inr (Proceed cfg)"
  shows "optional_int env (arg_count a) = Inr (cfg_count cfg)"
    and "\<not> count_reached (cfg_count cfg) \<lparr>ls_computed = 0, ls_output = [], ls_calls = []\<rparr>"
proof -
  from dm_prepare_ProceedD [OF assms] obtain project seed cnt decision_function output_function
    where "optional_int env (arg_count a) = Inr cnt"
      and "\<not> (case cnt of None \<Rightarrow> False | Some n \<Rightarrow> n \<le> 0)"
      and "cfg = \<lparr>cfg_project = project, cfg_seed = seed, cfg_count = cnt,
                   cfg_decision_function = decision_function,
                   cfg_output_function = output_function\<rparr>"
    by blast
  then show "optional_int env (arg_count a) = Inr (cfg_count cfg)"
    and "\<not> count_reached (cfg_count cfg) \<lparr>ls_computed = 0, ls_output = [], ls_calls = []\<rparr>"
    by (simp_all add: count_reached_def split: option.splits)
qed

lemma dm_output_function_Return:
  "dm_output_function env stack_output context = Inr (Return code) \<Longrightarrow> code = 1 \<or> code = 2"
  by (simp add: dm_output_function_def split: sum.splits option.splits if_splits)

lemma dm_prepare_Return:
  assumes "dm_prepare env a = Inr (Return code)"
  shows "code = 1 \<or> code = 2 \<or> code = 3"
proof (cases "code = 3")
  case True
  then show ?thesis by simp
next
  case False
  with assms have "dm_output_function env (arg_stack_output a) (arg_context a) = Inr (Return code)"
    by (simp add: dm_prepare_def split: sum.splits option.splits if_splits step.splits)
  then show ?thesis
    using dm_output_function_Return by blast
qed

lemma dm_generate_loop:
  assumes "walk env (cfg_project cfg) (cfg_decision_function cfg) (cfg_seed cfg) = (ys, ending)"
    and "dm_loop (fill_package_digests env) (cfg_output_function cfg) dry (cfg_count cfg) ys ending
           \<lparr>ls_computed = 0, ls_output = [], ls_calls = []\<rparr> = (raised, st)"
  shows "dm_generate env cfg dry =
     (case raised of
        None \<Rightarrow>
          Inr \<lparr>exit_code = 0,
               printed = Some \<lparr>dm_error = False, dm_report = [], dm_output = ls_output st,
                               dm_computed = Some (ls_computed st)\<rparr>,
               output_calls = ls_calls st\<rparr>
      | Some exc \<Rightarrow>
          if isinstance exc ''SolverException'' then
            Inr \<lparr>exit_code = 1,
                 printed = Some \<lparr>dm_error = True, dm_report = [], dm_output = ls_output st,
                                 dm_computed = None\<rparr>,
                 output_calls = ls_calls st\<rparr>
          else Inl exc)"
  using assms by (simp add: dm_generate_def split: option.splits)

lemma dm_generate_printed:
  assumes "dm_generate env cfg dry = Inr out"
  obtains ys ending raised st r where
    "walk env (cfg_project cfg) (cfg_decision_function cfg) (cfg_seed cfg) = (ys, ending)"
    and "dm_loop (fill_package_digests env) (cfg_output_function cfg) dry (cfg_count cfg) ys ending
           \<lparr>ls_computed = 0, ls_output = [], ls_calls = []\<rparr> = (raised, st)"
    and "printed out = Some r" and "output_calls out = ls_calls st"
    and "dm_output r = ls_output st" and "dm_report r = []"
    and "exit_code out = (if dm_error r then 1 else 0)"
    and "dm_computed r = None \<or> dm_computed r = Some (ls_computed st)"
proof -
  obtain ys ending where w:
    "walk env (cfg_project cfg) (cfg_decision_function cfg) (cfg_seed cfg) = (ys, ending)"
    by (cases "walk env (cfg_project cfg) (cfg_decision_function cfg) (cfg_seed cfg)")
  obtain raised st where l:
    "dm_loop (fill_package_digests env) (cfg_output_function cfg) dry (cfg_count cfg) ys ending
       \<lparr>ls_computed = 0, ls_output = [], ls_calls = []\<rparr> = (raised, st)"
    by (cases "dm_loop (fill_package_digests env) (cfg_output_function cfg) dry (cfg_count cfg)
                 ys ending \<lparr>ls_computed = 0, ls_output = [], ls_calls = []\<rparr>")
  note gen = dm_generate_loop [OF w l]
  show thesis
  proof (cases raised)
    case None
    with gen assms have out: "out = \<lparr>exit_code = 0,
               printed = Some \<lparr>dm_error = False, dm_report = [], dm_output = ls_output st,
                               dm_computed = Some (ls_computed st)\<rparr>,
               output_calls = ls_calls st\<rparr>"
      by simp
    show thesis
      by (rule that [OF w l, of "\<lparr>dm_error = False, dm_report = [], dm_output = ls_output st,
                               dm_computed = Some (ls_computed st)\<rparr>"])
        (simp_all add: out)
  next
    case (Some exc)
    with gen assms have out: "out = \<lparr>exit_code = 1,
                 printed = Some \<lparr>dm_error = True, dm_report = [], dm_output = ls_output st,
                                 dm_computed = None\<rparr>,
                 output_calls = ls_calls st\<rparr>"
      by (simp split: if_splits)
    show thesis
      by (rule that [OF w l, of "\<lparr>dm_error = True, dm_report = [], dm_output = ls_output st,
                                 dm_computed = None\<rparr>"])
        (simp_all add: out)
  qed
qed

lemma optional_int_walk:
  "optional_int (env\<lparr>walk := w\<rparr>) v = optional_int env v"
  by (simp add: optional_int_def cong: option.case_cong)

lemma dm_output_function_walk:
  "dm_output_function (env\<lparr>walk := w\<rparr>) stack_output context
     = dm_output_function env stack_output context"
proof -
  have "dm_amun_inspect_wrapper (env\<lparr>walk := w\<rparr>) = dm_amun_inspect_wrapper env"
    by (intro ext) (simp add: dm_amun_inspect_wrapper_def cong: sum.case_cong)
  moreover have "dm_stdout_output (env\<lparr>walk := w\<rparr>) = dm_stdout_output env"
    by (intro ext) (simp add: dm_stdout_output_def)
  moreover have "dm_amun_directory_output (env\<lparr>walk := w\<rparr>) = dm_amun_directory_output env"
    by (intro ext) (simp add: dm_amun_directory_output_def)
  ultimately show ?thesis
    unfolding dm_output_function_def
    by (simp cong: sum.case_cong option.case_cong if_cong)
qed

lemma dm_prepare_walk:
  "dm_prepare (env\<lparr>walk := w\<rparr>) a = dm_prepare env a"
  unfolding dm_prepare_def dm_output_function_walk optional_int_walk
  by (simp cong: sum.case_cong option.case_cong)

lemma dm_generate_truncate:
  assumes "cfg_count cfg = Some n" and "1 \<le> n"
  shows "dm_generate
           (env\<lparr>walk := \<lambda>project decision_function seed.
                   (take (nat n) (fst (walk env project decision_function seed)),
                    if nat n \<le> length (fst (walk env project decision_function seed)) then None
                    else snd (walk env project decision_function seed))\<rparr>) cfg dry
         = dm_generate env cfg dry"
    (is "dm_generate ?env cfg dry = _")
proof -
  obtain ys ending where w:
    "walk env (cfg_project cfg) (cfg_decision_function cfg) (cfg_seed cfg) = (ys, ending)"
    by (cases "walk env (cfg_project cfg) (cfg_decision_function cfg) (cfg_seed cfg)")
  let ?init = "\<lparr>ls_computed = 0, ls_output = [], ls_calls = []\<rparr> :: 'a loop_state"
  obtain raised st where l:
    "dm_loop (fill_package_digests env) (cfg_output_function cfg) dry (cfg_count cfg) ys ending
       ?init = (raised, st)"
    by (cases "dm_loop (fill_package_digests env) (cfg_output_function cfg) dry (cfg_count cfg)
                 ys ending ?init")
  have "ls_computed ?init < n"
    using assms(2) by simp
  from dm_loop_take [OF this, of "fill_package_digests env" "cfg_output_function cfg" dry ys ending]
  have "dm_loop (fill_package_digests env) (cfg_output_function cfg) dry (Some n) ys ending ?init
      = dm_loop (fill_package_digests env) (cfg_output_function cfg) dry (Some n)
          (take (nat n) ys) (if nat n \<le> length ys then None else ending) ?init"
    by simp
  with l assms(1) have l':
    "dm_loop (fill_package_digests ?env) (cfg_output_function cfg) dry (cfg_count cfg)
       (take (nat n) ys) (if nat n \<le> length ys then None else ending) ?init = (raised, st)"
    by simp
  have w': "walk ?env (cfg_project cfg) (cfg_decision_function cfg) (cfg_seed cfg)
      = (take (nat n) ys, if nat n \<le> length ys then None else ending)"
    using w by simp
  have "dm_generate ?env cfg dry = dm_generate env cfg dry"
    unfolding dm_generate_loop [OF w l] dm_generate_loop [OF w' l'] ..
  then show ?thesis .
qed

text \<open>
  C6. When the count argument reads as an integer \<open>n\<close> of at least 1 and the command
  returns, the output function has been called at most \<open>n\<close> times, and the result,
  if one is printed, holds at most \<open>n\<close> output entries and a \<open>computed\<close> of at most
  \<open>n\<close>. The walk is consulted for its first \<open>n\<close> projects only: cutting it after
  them, whatever follows and however it ends, does not change the outcome.
\<close>

theorem count_caps_enumeration:
  assumes "optional_int env (arg_count a) = Inr (Some n)" and "1 \<le> n"
  shows "(\<forall>out. dependency_monkey env a = Inr out \<longrightarrow>
            int (length (output_calls out)) \<le> n
            \<and> (\<forall>r. printed out = Some r \<longrightarrow>
                  int (length (dm_output r)) \<le> n \<and> (\<forall>c. dm_computed r = Some c \<longrightarrow> c \<le> n)))
         \<and> dependency_monkey
             (env\<lparr>walk := \<lambda>project decision_function seed.
                     (take (nat n) (fst (walk env project decision_function seed)),
                      if nat n \<le> length (fst (walk env project decision_function seed)) then None
                      else snd (walk env project decision_function seed))\<rparr>) a
           = dependency_monkey env a"
proof (rule conjI)
  show "\<forall>out. dependency_monkey env a = Inr out \<longrightarrow>
            int (length (output_calls out)) \<le> n
            \<and> (\<forall>r. printed out = Some r \<longrightarrow>
                  int (length (dm_output r)) \<le> n \<and> (\<forall>c. dm_computed r = Some c \<longrightarrow> c \<le> n))"
  proof (intro allI impI)
  fix out
  assume run: "dependency_monkey env a = Inr out"
  show "int (length (output_calls out)) \<le> n
        \<and> (\<forall>r. printed out = Some r \<longrightarrow>
              int (length (dm_output r)) \<le> n \<and> (\<forall>c. dm_computed r = Some c \<longrightarrow> c \<le> n))"
  proof (cases "dm_prepare env a")
    case (Inl exc)
    with run show ?thesis
      by (simp add: dependency_monkey_def)
  next
    case (Inr prepared)
    show ?thesis
    proof (cases prepared)
      case (Return code)
      with Inr run assms(2) show ?thesis
        by (auto simp: dependency_monkey_def)
    next
      case (Proceed cfg)
      with Inr have prep: "dm_prepare env a = Inr (Proceed cfg)"
        by simp
      from dm_prepare_count(1) [OF prep] assms(1) have cnt: "cfg_count cfg = Some n"
        by simp
      from prep run have "dm_generate env cfg (arg_dry_run a) = Inr out"
        by (simp add: dependency_monkey_def)
      then obtain ys ending raised st r where
        l: "dm_loop (fill_package_digests env) (cfg_output_function cfg) (arg_dry_run a)
              (cfg_count cfg) ys ending \<lparr>ls_computed = 0, ls_output = [], ls_calls = []\<rparr>
            = (raised, st)"
        and out: "printed out = Some r" "output_calls out = ls_calls st"
          "dm_output r = ls_output st"
          "dm_computed r = None \<or> dm_computed r = Some (ls_computed st)"
        by (rule dm_generate_printed)
      from l cnt assms(2) dm_loop_cap
             [of "fill_package_digests env" "cfg_output_function cfg" "arg_dry_run a" n ys ending
                 "\<lparr>ls_computed = 0, ls_output = [], ls_calls = []\<rparr>" raised st]
      have "ls_computed st \<le> n" "int (length (ls_calls st)) \<le> ls_computed st"
        "int (length (ls_output st)) \<le> ls_computed st"
        by simp_all
      with out show ?thesis
        by auto
    qed
  qed
  qed
next
  let ?env = "env\<lparr>walk := \<lambda>project decision_function seed.
                     (take (nat n) (fst (walk env project decision_function seed)),
                      if nat n \<le> length (fst (walk env project decision_function seed)) then None
                      else snd (walk env project decision_function seed))\<rparr>"
  have prep: "dm_prepare ?env a = dm_prepare env a"
    by (rule dm_prepare_walk)
  show "dependency_monkey ?env a = dependency_monkey env a"
  proof (cases "dm_prepare env a")
    case (Inl exc)
    with prep show ?thesis
      by (simp add: dependency_monkey_def)
  next
    case (Inr prepared)
    show ?thesis
    proof (cases prepared)
      case (Return code)
      with Inr prep show ?thesis
        by (simp add: dependency_monkey_def)
    next
      case (Proceed cfg)
      with Inr have p: "dm_prepare env a = Inr (Proceed cfg)"
        by simp
      from dm_prepare_count(1) [OF p] assms(1) have "cfg_count cfg = Some n"
        by simp
      from dm_generate_truncate [OF this assms(2)] p prep show ?thesis
        by (simp add: dependency_monkey_def)
    qed
  qed
qed



lemmas example_run =
  dependency_monkey_def dm_prepare_def dm_generate_def example_dm_env_def example_args_def
  optional_int_def nonempty_def truthy_def dm_output_function_def startswith_def
  dm_amun_directory_output_def dm_amun_inspect_wrapper_def dm_stdout_output_def
  dm_round_def count_reached_def solver_exception_def json_decode_error_def isinstance_def

theorem count_caps_enumeration_witness:
  "optional_int (example_dm_env [''stack1'', ''stack2'', ''stack3''] (Some solver_exception))
       (arg_count (example_args\<lparr>arg_count := Some ''2''\<rparr>)) = Inr (Some 2)
   \<and> dependency_monkey (example_dm_env [''stack1'', ''stack2'', ''stack3''] (Some solver_exception))
         (example_args\<lparr>arg_count := Some ''2''\<rparr>)
       = Inr \<lparr>exit_code = 0,
              printed = Some \<lparr>dm_error = False, dm_report = [],
                              dm_output = [''/out/00001'', ''/out/00002''],
                              dm_computed = Some 2\<rparr>,
              output_calls = [(''stack1'', 1), (''stack2'', 2)]\<rparr>
   \<and> dependency_monkey (example_dm_env [''stack1'', ''stack2''] None)
         (example_args\<lparr>arg_count := Some ''2''\<rparr>)
       = dependency_monkey (example_dm_env [''stack1'', ''stack2'', ''stack3''] (Some solver_exception))
           (example_args\<lparr>arg_count := Some ''2''\<rparr>)"
proof -
  have cnt: "optional_int (example_dm_env [''stack1'', ''stack2'', ''stack3''] (Some solver_exception))
       (arg_count (example_args\<lparr>arg_count := Some ''2''\<rparr>)) = Inr (Some 2)"
    by (simp add: example_run)
  have "(1::int) \<le> 2"
    by simp
  from count_caps_enumeration [OF cnt this] cnt show ?thesis
    by (simp add: example_run)
qed

text \<open>
  C10. With \<open>dry_run\<close> set, whenever the command returns, the output function has not
  been called and the output list of the result is empty. When the walk ends without
  an exception and the digest lookup succeeds for every project it yields, the command
  returns 0 and \<open>computed\<close> is the number of projects the walk yields, or the count
  when that is smaller.
\<close>

theorem dry_run_counts_without_output:
  assumes "arg_dry_run a"
  shows "(\<forall>out. dependency_monkey env a = Inr out \<longrightarrow>
            output_calls out = [] \<and> (\<forall>r. printed out = Some r \<longrightarrow> dm_output r = []))
         \<and> (\<forall>cfg ys.
               dm_prepare env a = Inr (Proceed cfg)
               \<and> walk env (cfg_project cfg) (cfg_decision_function cfg) (cfg_seed cfg) = (ys, None)
               \<and> (\<forall>y \<in> set ys. \<exists>g. fill_package_digests env y = Inr g) \<longrightarrow>
               dependency_monkey env a
                 = Inr \<lparr>exit_code = 0,
                        printed = Some \<lparr>dm_error = False, dm_report = [], dm_output = [],
                                        dm_computed =
                                          Some (case cfg_count cfg of
                                                  None \<Rightarrow> int (length ys)
                                                | Some n \<Rightarrow> min (int (length ys)) n)\<rparr>,
                        output_calls = []\<rparr>)"
proof (rule conjI)
  show "\<forall>out. dependency_monkey env a = Inr out \<longrightarrow>
            output_calls out = [] \<and> (\<forall>r. printed out = Some r \<longrightarrow> dm_output r = [])"
  proof (intro allI impI)
    fix out
    assume run: "dependency_monkey env a = Inr out"
    show "output_calls out = [] \<and> (\<forall>r. printed out = Some r \<longrightarrow> dm_output r = [])"
    proof (cases "dm_prepare env a")
      case (Inl exc)
      with run show ?thesis
        by (simp add: dependency_monkey_def)
    next
      case (Inr prepared)
      show ?thesis
      proof (cases prepared)
        case (Return code)
        with Inr run show ?thesis
          by (auto simp: dependency_monkey_def)
      next
        case (Proceed cfg)
        with Inr run have "dm_generate env cfg (arg_dry_run a) = Inr out"
          by (simp add: dependency_monkey_def)
        then obtain ys ending raised st r where
          l: "dm_loop (fill_package_digests env) (cfg_output_function cfg) (arg_dry_run a)
                (cfg_count cfg) ys ending \<lparr>ls_computed = 0, ls_output = [], ls_calls = []\<rparr>
              = (raised, st)"
          and out: "printed out = Some r" "output_calls out = ls_calls st"
            "dm_output r = ls_output st"
          by (rule dm_generate_printed)
        from dm_loop_dry [OF assms l] have "ls_calls st = []" "ls_output st = []"
          by simp_all
        with out show ?thesis
          by auto
      qed
    qed
  qed
next
  show "\<forall>cfg ys.
          dm_prepare env a = Inr (Proceed cfg)
          \<and> walk env (cfg_project cfg) (cfg_decision_function cfg) (cfg_seed cfg) = (ys, None)
          \<and> (\<forall>y \<in> set ys. \<exists>g. fill_package_digests env y = Inr g) \<longrightarrow>
          dependency_monkey env a
            = Inr \<lparr>exit_code = 0,
                   printed = Some \<lparr>dm_error = False, dm_report = [], dm_output = [],
                                   dm_computed =
                                     Some (case cfg_count cfg of
                                             None \<Rightarrow> int (length ys)
                                           | Some n \<Rightarrow> min (int (length ys)) n)\<rparr>,
                   output_calls = []\<rparr>"
  proof (intro allI impI, elim conjE)
    fix cfg ys
    assume prep: "dm_prepare env a = Inr (Proceed cfg)"
      and w: "walk env (cfg_project cfg) (cfg_decision_function cfg) (cfg_seed cfg) = (ys, None)"
      and fill: "\<forall>y \<in> set ys. \<exists>g. fill_package_digests env y = Inr g"
    let ?init = "\<lparr>ls_computed = 0, ls_output = [], ls_calls = []\<rparr> :: 'a loop_state"
    from dm_loop_dry_count [OF fill dm_prepare_count(2) [OF prep]] assms
    have l: "dm_loop (fill_package_digests env) (cfg_output_function cfg) (arg_dry_run a)
               (cfg_count cfg) ys None ?init
             = (None, ?init\<lparr>ls_computed :=
                  (case cfg_count cfg of
                     None \<Rightarrow> ls_computed ?init + int (length ys)
                   | Some n \<Rightarrow> min (ls_computed ?init + int (length ys)) n)\<rparr>)"
      by simp
    from dm_generate_loop [OF w l] prep
    show "dependency_monkey env a
            = Inr \<lparr>exit_code = 0,
                   printed = Some \<lparr>dm_error = False, dm_report = [], dm_output = [],
                                   dm_computed =
                                     Some (case cfg_count cfg of
                                             None \<Rightarrow> int (length ys)
                                           | Some n \<Rightarrow> min (int (length ys)) n)\<rparr>,
                   output_calls = []\<rparr>"
      by (simp add: dependency_monkey_def cong: option.case_cong)
  qed
qed

theorem dry_run_counts_without_output_witness:
  "arg_dry_run (example_args\<lparr>arg_dry_run := True, arg_count := Some ''2''\<rparr>)
   \<and> dependency_monkey (example_dm_env [''stack1'', ''stack2'', ''stack3''] None)
         (example_args\<lparr>arg_dry_run := True, arg_count := Some ''2''\<rparr>)
       = Inr \<lparr>exit_code = 0,
              printed = Some \<lparr>dm_error = False, dm_report = [], dm_output = [],
                              dm_computed = Some 2\<rparr>,
              output_calls = []\<rparr>
   \<and> arg_dry_run (example_args\<lparr>arg_dry_run := True\<rparr>)
   \<and> dependency_monkey (example_dm_env [''stack1'', ''stack2'', ''stack3''] None)
         (example_args\<lparr>arg_dry_run := True\<rparr>)
       = Inr \<lparr>exit_code = 0,
              printed = Some \<lparr>dm_error = False, dm_report = [], dm_output = [],
                              dm_computed = Some 3\<rparr>,
              output_calls = []\<rparr>"
proof -
  have a: "arg_dry_run (example_args\<lparr>arg_dry_run := True, arg_count := Some ''2''\<rparr>)"
    and b: "arg_dry_run (example_args\<lparr>arg_dry_run := True\<rparr>)"
    by simp_all
  from dry_run_counts_without_output
         [OF a, of "example_dm_env [''stack1'', ''stack2'', ''stack3''] None"]
       dry_run_counts_without_output
         [OF b, of "example_dm_env [''stack1'', ''stack2'', ''stack3''] None"]
  show ?thesis
    by (simp add: example_run)
qed


text \<open>
  C3, as stated, fails: a \<open>SolverException\<close> of the walk is caught, but nothing is
  written to the report. Here the walk yields one stack and then raises; the command
  returns 1 with \<open>error\<close> set, the output entry of the first stack kept, and an
  empty report.
\<close>

theorem solver_exception_not_reported:
  "dependency_monkey (example_dm_env [''stack1''] (Some solver_exception)) example_args
     = Inr \<lparr>exit_code = 1,
            printed = Some \<lparr>dm_error = True, dm_report = [], dm_output = [''/out/00001''],
                            dm_computed = None\<rparr>,
            output_calls = [(''stack1'', 1)]\<rparr>
   \<and> isinstance solver_exception ''SolverException''"
  by (simp add: example_run)

text \<open>
  C3, amended. When the walk raises a \<open>SolverException\<close> after the projects
  \<open>ys\<close>, and the rounds of the loop for \<open>ys\<close> complete without an exception and
  without reaching the count, leaving the loop state \<open>st\<close>, the command catches the
  exception: it returns 1 and prints a result with \<open>error\<close> set, an empty report,
  no \<open>computed\<close>, and the output entries collected in those rounds.
\<close>

theorem solver_exception_sets_error_only:
  assumes "dm_prepare env a = Inr (Proceed cfg)"
    and "walk env (cfg_project cfg) (cfg_decision_function cfg) (cfg_seed cfg) = (ys, Some exc)"
    and "isinstance exc ''SolverException''"
    and "dm_loop (fill_package_digests env) (cfg_output_function cfg) (arg_dry_run a)
           (cfg_count cfg) ys None \<lparr>ls_computed = 0, ls_output = [], ls_calls = []\<rparr> = (None, st)"
    and "\<not> count_reached (cfg_count cfg) st"
  shows "dependency_monkey env a
           = Inr \<lparr>exit_code = 1,
                  printed = Some \<lparr>dm_error = True, dm_report = [], dm_output = ls_output st,
                                  dm_computed = None\<rparr>,
                  output_calls = ls_calls st\<rparr>"
proof -
  from dm_loop_ending [OF assms(4) assms(5)]
  have "dm_loop (fill_package_digests env) (cfg_output_function cfg) (arg_dry_run a)
          (cfg_count cfg) ys (Some exc) \<lparr>ls_computed = 0, ls_output = [], ls_calls = []\<rparr>
        = (Some exc, st)" .
  from dm_generate_loop [OF assms(2) this] assms(1) assms(3) show ?thesis
    by (simp add: dependency_monkey_def)
qed

theorem solver_exception_sets_error_only_witness:
  "dm_prepare (example_dm_env [''stack1''] (Some solver_exception)) example_args
     = Inr (Proceed \<lparr>cfg_project = ''project'', cfg_seed = None, cfg_count = None,
                     cfg_decision_function = ''everything'',
                     cfg_output_function =
                       dm_amun_directory_output
                         (example_dm_env [''stack1''] (Some solver_exception)) ''/out''\<rparr>)
   \<and> isinstance solver_exception ''SolverException''
   \<and> dependency_monkey (example_dm_env [''stack1''] (Some solver_exception)) example_args
       = Inr \<lparr>exit_code = 1,
              printed = Some \<lparr>dm_error = True, dm_report = [], dm_output = [''/out/00001''],
                              dm_computed = None\<rparr>,
              output_calls = [(''stack1'', 1)]\<rparr>"
proof -
  let ?env = "example_dm_env [''stack1''] (Some solver_exception)"
  let ?cfg = "\<lparr>cfg_project = ''project'', cfg_seed = None, cfg_count = None,
                cfg_decision_function = ''everything'',
                cfg_output_function = dm_amun_directory_output ?env ''/out''\<rparr>"
  let ?st = "\<lparr>ls_computed = 1, ls_output = [''/out/00001''], ls_calls = [(''stack1'', 1)]\<rparr>"
  have prep: "dm_prepare ?env example_args = Inr (Proceed ?cfg)"
    by (simp add: dm_prepare_def dm_output_function_def example_dm_env_def example_args_def
          optional_int_def nonempty_def truthy_def startswith_def)
  have w: "walk ?env (cfg_project ?cfg) (cfg_decision_function ?cfg) (cfg_seed ?cfg)
             = ([''stack1''], Some solver_exception)"
    by (simp add: example_dm_env_def)
  have solver: "isinstance solver_exception ''SolverException''"
    by (simp add: isinstance_def solver_exception_def)
  have l: "dm_loop (fill_package_digests ?env) (cfg_output_function ?cfg) (arg_dry_run example_args)
             (cfg_count ?cfg) [''stack1''] None \<lparr>ls_computed = 0, ls_output = [], ls_calls = []\<rparr>
           = (None, ?st)"
    by (simp add: example_dm_env_def example_args_def dm_round_def dm_amun_directory_output_def
          nonempty_def truthy_def count_reached_def)
  have c: "\<not> count_reached (cfg_count ?cfg) ?st"
    by (simp add: count_reached_def)
  from solver_exception_sets_error_only [OF prep w solver l c] prep solver show ?thesis
    by simp
qed

text \<open>
  C4, as stated, fails: with a count of zero, an http endpoint and a context that is
  not JSON, the command returns 3, not 1; and it returns before any result exists, so
  no \<open>error\<close> of a result accompanies the exit code.
\<close>

theorem early_return_without_result:
  "startswith ''http://amun/api'' ''http://''
   \<and> truthy (Some ''{'')
   \<and> json_loads (example_dm_env [''stack1''] None) ''{'' = Inl json_decode_error
   \<and> isinstance json_decode_error ''Exception''
   \<and> dependency_monkey (example_dm_env [''stack1''] None)
        (example_args\<lparr>arg_count := Some ''0'', arg_stack_output := ''http://amun/api'',
                       arg_context := Some ''{''\<rparr>)
       = Inr \<lparr>exit_code = 3, printed = None, output_calls = []\<rparr>"
  by (simp add: example_run)

text \<open>
  C4, amended. Once the manifest is read, seed and count are converted and the
  decision function is found: the command returns 3 when the count is an integer that
  is not positive; otherwise it returns 1 when the stack output starts with
  \<open>https://\<close> or \<open>http://\<close> and the context, not empty, makes \<open>json.loads\<close> raise;
  otherwise it returns 2 when the stack output is neither such an endpoint nor \<open>-\<close>
  and the context is not empty. In the three cases no result is built or printed and
  the output function is not called. Whenever the command returns, either it is one of
  these returns, with code 1, 2 or 3 and no result, or a result is printed and the
  code is 1 if its \<open>error\<close> is set and 0 if not.
\<close>

theorem early_exit_codes:
  assumes "dm_instantiate_project env (arg_requirements a) None (arg_files a) = Inr project"
    and "optional_int env (arg_seed a) = Inr seed"
    and "optional_int env (arg_count a) = Inr cnt"
    and "decision_functions env (arg_decision a) = Some decision_function"
  shows "((\<exists>n. cnt = Some n \<and> n \<le> 0) \<longrightarrow>
            dependency_monkey env a = Inr \<lparr>exit_code = 3, printed = None, output_calls = []\<rparr>)
         \<and> (\<not> (\<exists>n. cnt = Some n \<and> n \<le> 0)
            \<and> (startswith (arg_stack_output a) ''https://'' \<or> startswith (arg_stack_output a) ''http://'')
            \<and> (\<exists>s exc. nonempty (arg_context a) = Some s \<and> json_loads env s = Inl exc
                  \<and> isinstance exc ''Exception'') \<longrightarrow>
            dependency_monkey env a = Inr \<lparr>exit_code = 1, printed = None, output_calls = []\<rparr>)
         \<and> (\<not> (\<exists>n. cnt = Some n \<and> n \<le> 0)
            \<and> \<not> (startswith (arg_stack_output a) ''https://'' \<or> startswith (arg_stack_output a) ''http://'')
            \<and> arg_stack_output a \<noteq> ''-'' \<and> truthy (arg_context a) \<longrightarrow>
            dependency_monkey env a = Inr \<lparr>exit_code = 2, printed = None, output_calls = []\<rparr>)
         \<and> (\<forall>out. dependency_monkey env a = Inr out \<longrightarrow>
              (printed out = None \<and> output_calls out = []
                 \<and> (exit_code out = 1 \<or> exit_code out = 2 \<or> exit_code out = 3))
              \<or> (\<exists>r. printed out = Some r \<and> exit_code out = (if dm_error r then 1 else 0)))"
proof (intro conjI)
  show "(\<exists>n. cnt = Some n \<and> n \<le> 0) \<longrightarrow>
          dependency_monkey env a = Inr \<lparr>exit_code = 3, printed = None, output_calls = []\<rparr>"
    using assms by (auto simp: dependency_monkey_def dm_prepare_def)
next
  show "\<not> (\<exists>n. cnt = Some n \<and> n \<le> 0)
          \<and> (startswith (arg_stack_output a) ''https://'' \<or> startswith (arg_stack_output a) ''http://'')
          \<and> (\<exists>s exc. nonempty (arg_context a) = Some s \<and> json_loads env s = Inl exc
                \<and> isinstance exc ''Exception'') \<longrightarrow>
          dependency_monkey env a = Inr \<lparr>exit_code = 1, printed = None, output_calls = []\<rparr>"
  proof (intro impI, elim conjE exE)
    fix s exc
    assume pos: "\<not> (\<exists>n. cnt = Some n \<and> n \<le> 0)"
      and http: "startswith (arg_stack_output a) ''https://'' \<or> startswith (arg_stack_output a) ''http://''"
      and ctx: "nonempty (arg_context a) = Some s" "json_loads env s = Inl exc"
        "isinstance exc ''Exception''"
    from http ctx have "dm_output_function env (arg_stack_output a) (arg_context a) = Inr (Return 1)"
      by (simp add: dm_output_function_def)
    moreover from pos have "\<not> (case cnt of None \<Rightarrow> False | Some n \<Rightarrow> n \<le> 0)"
      by (simp split: option.splits)
    ultimately show "dependency_monkey env a
        = Inr \<lparr>exit_code = 1, printed = None, output_calls = []\<rparr>"
      using assms by (simp add: dependency_monkey_def dm_prepare_def)
  qed
next
  show "\<not> (\<exists>n. cnt = Some n \<and> n \<le> 0)
          \<and> \<not> (startswith (arg_stack_output a) ''https://'' \<or> startswith (arg_stack_output a) ''http://'')
          \<and> arg_stack_output a \<noteq> ''-'' \<and> truthy (arg_context a) \<longrightarrow>
          dependency_monkey env a = Inr \<lparr>exit_code = 2, printed = None, output_calls = []\<rparr>"
  proof (intro impI, elim conjE)
    assume pos: "\<not> (\<exists>n. cnt = Some n \<and> n \<le> 0)"
      and dir: "\<not> (startswith (arg_stack_output a) ''https://'' \<or> startswith (arg_stack_output a) ''http://'')"
        "arg_stack_output a \<noteq> ''-''" "truthy (arg_context a)"
    from dir have "dm_output_function env (arg_stack_output a) (arg_context a) = Inr (Return 2)"
      by (simp add: dm_output_function_def)
    moreover from pos have "\<not> (case cnt of None \<Rightarrow> False | Some n \<Rightarrow> n \<le> 0)"
      by (simp split: option.splits)
    ultimately show "dependency_monkey env a
        = Inr \<lparr>exit_code = 2, printed = None, output_calls = []\<rparr>"
      using assms by (simp add: dependency_monkey_def dm_prepare_def)
  qed
next
  show "\<forall>out. dependency_monkey env a = Inr out \<longrightarrow>
          (printed out = None \<and> output_calls out = []
             \<and> (exit_code out = 1 \<or> exit_code out = 2 \<or> exit_code out = 3))
          \<or> (\<exists>r. printed out = Some r \<and> exit_code out = (if dm_error r then 1 else 0))"
  proof (intro allI impI)
    fix out
    assume run: "dependency_monkey env a = Inr out"
    show "(printed out = None \<and> output_calls out = []
             \<and> (exit_code out = 1 \<or> exit_code out = 2 \<or> exit_code out = 3))
          \<or> (\<exists>r. printed out = Some r \<and> exit_code out = (if dm_error r then 1 else 0))"
    proof (cases "dm_prepare env a")
      case (Inl exc)
      with run show ?thesis
        by (simp add: dependency_monkey_def)
    next
      case (Inr prepared)
      show ?thesis
      proof (cases prepared)
        case (Return code)
        with Inr have "code = 1 \<or> code = 2 \<or> code = 3"
          using dm_prepare_Return by blast
        moreover from Return Inr run have "out = \<lparr>exit_code = code, printed = None, output_calls = []\<rparr>"
          by (simp add: dependency_monkey_def)
        ultimately show ?thesis
          by simp
      next
        case (Proceed cfg)
        with Inr run have "dm_generate env cfg (arg_dry_run a) = Inr out"
          by (simp add: dependency_monkey_def)
        then obtain r where "printed out = Some r" "exit_code out = (if dm_error r then 1 else 0)"
          by (rule dm_generate_printed)
        then show ?thesis
          by blast
      qed
    qed
  qed
qed

theorem early_exit_codes_witness:
  "dependency_monkey (example_dm_env [''stack1''] None) (example_args\<lparr>arg_count := Some ''0''\<rparr>)
     = Inr \<lparr>exit_code = 3, printed = None, output_calls = []\<rparr>
   \<and> startswith ''http://amun/api'' ''http://''
   \<and> json_loads (example_dm_env [''stack1''] None) ''{'' = Inl json_decode_error
   \<and> dependency_monkey (example_dm_env [''stack1''] None)
        (example_args\<lparr>arg_stack_output := ''http://amun/api'', arg_context := Some ''{''\<rparr>)
       = Inr \<lparr>exit_code = 1, printed = None, output_calls = []\<rparr>
   \<and> dependency_monkey (example_dm_env [''stack1''] None)
        (example_args\<lparr>arg_context := Some ''{}''\<rparr>)
       = Inr \<lparr>exit_code = 2, printed = None, output_calls = []\<rparr>"
proof -
  let ?env = "example_dm_env [''stack1''] None"
  let ?zero = "example_args\<lparr>arg_count := Some ''0''\<rparr>"
  let ?amun = "example_args\<lparr>arg_stack_output := ''http://amun/api'', arg_context := Some ''{''\<rparr>"
  let ?both = "example_args\<lparr>arg_context := Some ''{}''\<rparr>"
  have project: "dm_instantiate_project ?env (arg_requirements b) None (arg_files b) = Inr ''project''"
    for b
    by (simp add: example_dm_env_def)
  have seed: "optional_int ?env (arg_seed ?zero) = Inr None"
    "optional_int ?env (arg_seed ?amun) = Inr None" "optional_int ?env (arg_seed ?both) = Inr None"
    by (simp_all add: optional_int_def nonempty_def truthy_def example_args_def)
  have cnt: "optional_int ?env (arg_count ?zero) = Inr (Some 0)"
    "optional_int ?env (arg_count ?amun) = Inr None" "optional_int ?env (arg_count ?both) = Inr None"
    by (simp_all add: optional_int_def nonempty_def truthy_def example_args_def example_dm_env_def)
  have decision: "decision_functions ?env (arg_decision ?zero) = Some ''everything''"
    "decision_functions ?env (arg_decision ?amun) = Some ''everything''"
    "decision_functions ?env (arg_decision ?both) = Some ''everything''"
    by (simp_all add: example_args_def example_dm_env_def)
  have http: "startswith ''http://amun/api'' ''http://''"
    by (simp add: startswith_def)
  have json: "json_loads ?env ''{'' = Inl json_decode_error"
    by (simp add: example_dm_env_def)
  have exc: "isinstance json_decode_error ''Exception''"
    by (simp add: isinstance_def json_decode_error_def)
  have ctx: "nonempty (arg_context ?amun) = Some ''{''" "truthy (arg_context ?both)"
    by (simp_all add: nonempty_def truthy_def)
  have target: "arg_stack_output ?amun = ''http://amun/api''" "arg_stack_output ?both = ''/out''"
    by (simp_all add: example_args_def)
  from early_exit_codes [OF project seed(1) cnt(1) decision(1)]
  have "dependency_monkey ?env ?zero = Inr \<lparr>exit_code = 3, printed = None, output_calls = []\<rparr>"
    by simp
  moreover
  from early_exit_codes [OF project seed(2) cnt(2) decision(2)] http json exc ctx(1) target(1)
  have "dependency_monkey ?env ?amun = Inr \<lparr>exit_code = 1, printed = None, output_calls = []\<rparr>"
    by simp
  moreover
  have "\<not> (startswith ''/out'' ''https://'' \<or> startswith ''/out'' ''http://'')" "''/out'' \<noteq> ''-''"
    by (simp_all add: startswith_def)
  with early_exit_codes [OF project seed(3) cnt(3) decision(3)] ctx(2) target(2)
  have "dependency_monkey ?env ?both = Inr \<lparr>exit_code = 2, printed = None, output_calls = []\<rparr>"
    by simp
  ultimately show ?thesis
    using http json by simp
qed

end
